theory Spec2Isabelle
  imports Complex_Main "HOL-Library.Word"
begin

section \<open>Training criterion nodes (TrainingCriterionNodes.h)\<close>

text \<open>
  The element type \<open>ElemType\<close> (float or double) is idealised as \<open>real\<close>: rounding is
  not modelled, only which operations the nodes apply to which tensors.
  A raised exception is a value \<open>Inl (e, s)\<close>, where \<open>s\<close> is the state at the throw;
  a normal return of the state \<open>s\<close> is \<open>Inr s\<close>.
\<close>

datatype error =
    InvalidArgument string
  | LogicError string
  | RuntimeError string
  | AssertionFailed string
  | OutOfRange string
  | DivisionByZero string

type_synonym 's result = "(error \<times> 's) + 's"

subsection \<open>The tensor engine, as the nodes consume it\<close>

text \<open>
  Modelled from the spec: the class \<open>Matrix\<close> (Matrix.h is absent). A dense
  2-D tensor with a row count, a column count, a device and its elements; \<open>Elem m i j\<close>
  is \<open>m(i, j)\<close>.
\<close>

record Matrix =
  GetNumRows :: nat
  GetNumCols :: nat
  GetDeviceId :: int
  Elem :: "nat \<Rightarrow> nat \<Rightarrow> real"

text \<open>Modelled from the spec: \<open>Matrix::Get00Element\<close>, the element at (0, 0).\<close>

definition Get00Element :: "Matrix \<Rightarrow> real" where
  "Get00Element m = Elem m 0 0"

text \<open>Modelled from the spec: \<open>Matrix::Resize\<close> sets the shape.\<close>

definition Resize :: "Matrix \<Rightarrow> nat \<Rightarrow> nat \<Rightarrow> Matrix" where
  "Resize m r c = m\<lparr>GetNumRows := r, GetNumCols := c\<rparr>"

text \<open>Modelled from the spec: \<open>Matrix::HasNoElements\<close>, a tensor with zero elements.\<close>

definition HasNoElements :: "Matrix \<Rightarrow> bool" where
  "HasNoElements m = (GetNumRows m * GetNumCols m = 0)"


text \<open>Modelled from the spec: \<open>Matrix::ScaleAndAdd(alpha, a, c)\<close> is \<open>c += alpha * a\<close>.\<close>

definition ScaleAndAdd :: "real \<Rightarrow> Matrix \<Rightarrow> Matrix \<Rightarrow> Matrix" where
  "ScaleAndAdd alpha a c = c\<lparr>Elem := \<lambda>i j. Elem c i j + alpha * Elem a i j\<rparr>"

text \<open>
  Modelled from the spec: \<open>Matrix::AddScaledDifference(alpha, a, b, c)\<close> with a 1 x 1
  tensor \<open>alpha\<close> is \<open>c += alpha(0,0) * (a - b)\<close>.
\<close>

definition AddScaledDifference :: "Matrix \<Rightarrow> Matrix \<Rightarrow> Matrix \<Rightarrow> Matrix \<Rightarrow> Matrix" where
  "AddScaledDifference alpha a b c =
     c\<lparr>Elem := \<lambda>i j. Elem c i j + Get00Element alpha * (Elem a i j - Elem b i j)\<rparr>"

subsection \<open>Nodes, the network and the minibatch layout\<close>

text \<open>
  Modelled from the spec: \<open>MBLayout\<close>, the Sequence Mask (ComputationNode.h is absent).
  Column \<open>t\<close> of a tensor is time \<open>t div nS\<close> of stream \<open>t mod nS\<close>, where \<open>nS\<close> is the
  number of parallel sequences; \<open>noLabel i j\<close> says that stream \<open>i\<close> carries the
  flag \<open>MinibatchPackingFlags::NoLabel\<close> at time \<open>j\<close>.
\<close>

record MBLayout =
  GetNumParallelSequences :: nat
  GetNumTimeSteps :: nat
  noLabel :: "nat \<Rightarrow> nat \<Rightarrow> bool"

text \<open>Modelled from the spec: \<open>MBLayout::IsAllNone\<close>, no flag is set anywhere.\<close>

definition IsAllNone :: "MBLayout \<Rightarrow> bool" where
  "IsAllNone L =
     list_all (\<lambda>j. list_all (\<lambda>i. \<not> noLabel L i j) [0..<GetNumParallelSequences L])
       [0..<GetNumTimeSteps L]"

text \<open>Modelled from the spec: \<open>MBLayout::Is(j, NoLabel)\<close>, some stream has the flag at time \<open>j\<close>.\<close>

definition Is_t :: "MBLayout \<Rightarrow> nat \<Rightarrow> bool" where
  "Is_t L j = list_ex (\<lambda>i. noLabel L i j) [0..<GetNumParallelSequences L]"

text \<open>Modelled from the spec: \<open>MBLayout::Is(i, j, NoLabel)\<close>, stream \<open>i\<close> has the flag at time \<open>j\<close>.\<close>

definition Is_st :: "MBLayout \<Rightarrow> nat \<Rightarrow> nat \<Rightarrow> bool" where
  "Is_st L i j = noLabel L i j"

text \<open>
  A node as its consumers see it: the addresses of its inputs (\<open>m_children\<close>), its
  operation name, its output and its gradient. The network maps an address to the node
  stored there, so two inputs with one address share their tensors.
\<close>

record ComputationNode =
  m_children :: "nat list"
  OperationName :: string
  FunctionValues :: Matrix
  GradientValues :: Matrix
  m_pMBLayout :: "MBLayout option"
  m_outputChannels :: nat
  m_outputWidth :: nat
  m_outputHeight :: nat

type_synonym Network = "nat \<Rightarrow> ComputationNode"

definition Inputs :: "'a ComputationNode_scheme \<Rightarrow> Network \<Rightarrow> nat \<Rightarrow> ComputationNode" where
  "Inputs n net i = net (m_children n ! i)"

definition setInputGradient ::
  "'a ComputationNode_scheme \<Rightarrow> Network \<Rightarrow> nat \<Rightarrow> Matrix \<Rightarrow> Network" where
  "setInputGradient n net i g =
     net(m_children n ! i := (net (m_children n ! i))\<lparr>GradientValues := g\<rparr>)"

text \<open>
  \<open>ClassBasedCrossEntropyWithSoftmaxNode::MaskToZeroWhenLabelAndFeatureMissing(m, t)\<close>:
  zeroes column \<open>t\<close> when its (stream, time) cell has no label, and says whether it did.
\<close>

definition zeroColumn :: "Matrix \<Rightarrow> nat \<Rightarrow> Matrix" where
  "zeroColumn m t = m\<lparr>Elem := \<lambda>i j. if j = t then 0 else Elem m i j\<rparr>"

definition MaskToZeroWhenLabelAndFeatureMissing_t ::
  "MBLayout option \<Rightarrow> Matrix \<Rightarrow> nat \<Rightarrow> Matrix \<times> bool" where
  "MaskToZeroWhenLabelAndFeatureMissing_t layout matrixToBeMasked t =
     (case layout of
        None \<Rightarrow> (matrixToBeMasked, False)
      | Some L \<Rightarrow>
          if \<not> IsAllNone L then
            (let nS = GetNumParallelSequences L; j = t div nS; i = t mod nS in
               if Is_t L j then
                 (if Is_st L i j then (zeroColumn matrixToBeMasked t, True)
                  else (matrixToBeMasked, False))
               else (matrixToBeMasked, False))
          else (matrixToBeMasked, False))"

text \<open>
  Modelled from the spec: \<open>ComputationNode::MaskToZeroWhenLabelAndFeatureMissing(m)\<close>
  (ComputationNode.h is absent), which does for every column of \<open>m\<close> what the function
  above does for one.
\<close>

definition MaskToZeroWhenLabelAndFeatureMissing :: "MBLayout option \<Rightarrow> Matrix \<Rightarrow> Matrix" where
  "MaskToZeroWhenLabelAndFeatureMissing layout m =
     m\<lparr>Elem := \<lambda>i t.
         if t < GetNumCols m \<and> snd (MaskToZeroWhenLabelAndFeatureMissing_t layout m t) then 0
         else Elem m i t\<rparr>"

subsection \<open>SquareErrorNode\<close>





subsection \<open>CrossEntropyWithSoftmaxNode\<close>

record CrossEntropyWithSoftmaxNode = ComputationNode +
  m_logSoftmaxOfRight :: Matrix
  m_softmaxOfRight :: Matrix

definition CrossEntropyWithSoftmax_ComputeInputPartialLeft ::
  "Matrix \<Rightarrow> Matrix \<Rightarrow> Matrix \<Rightarrow> Matrix" where
  "CrossEntropyWithSoftmax_ComputeInputPartialLeft logSoftmaxOfRight inputGradientValues
       gradientValues =
     ScaleAndAdd (- Get00Element gradientValues) logSoftmaxOfRight inputGradientValues"

definition CrossEntropyWithSoftmax_ComputeInputPartialRight ::
  "Matrix \<Rightarrow> Matrix \<Rightarrow> Matrix \<Rightarrow> Matrix \<Rightarrow> Matrix" where
  "CrossEntropyWithSoftmax_ComputeInputPartialRight softmaxOfRight inputFunctionValues
       inputGradientValues gradientValues =
     AddScaledDifference gradientValues softmaxOfRight inputFunctionValues inputGradientValues"

definition CrossEntropyWithSoftmax_ComputeInputPartial ::
  "nat \<Rightarrow> CrossEntropyWithSoftmaxNode \<Rightarrow> Network
     \<Rightarrow> (CrossEntropyWithSoftmaxNode \<times> Network) result" where
  "CrossEntropyWithSoftmax_ComputeInputPartial inputIndex n net =
     (if inputIndex > 1 then
        Inl (InvalidArgument
          ''CrossEntropyWithSoftmaxNode criterion only takes two inputs.'', (n, net))
      else if inputIndex = 0 then
        Inr (n, setInputGradient n net inputIndex
          (CrossEntropyWithSoftmax_ComputeInputPartialLeft (m_logSoftmaxOfRight n)
             (GradientValues (Inputs n net inputIndex)) (GradientValues n)))
      else
        (let net1 = setInputGradient n net inputIndex
               (CrossEntropyWithSoftmax_ComputeInputPartialRight (m_softmaxOfRight n)
                  (FunctionValues (Inputs n net 0)) (GradientValues (Inputs n net inputIndex))
                  (GradientValues n));
             net2 = setInputGradient n net1 inputIndex
               (MaskToZeroWhenLabelAndFeatureMissing (m_pMBLayout n)
                  (GradientValues (Inputs n net1 inputIndex)))
         in Inr (n, net2)))"

subsection \<open>DummyCriterionNode\<close>

type_synonym DummyCriterionNode = ComputationNode

definition DummyCriterion_ComputeInputPartialThree :: "Matrix \<Rightarrow> Matrix \<Rightarrow> Matrix \<Rightarrow> Matrix" where
  "DummyCriterion_ComputeInputPartialThree inputFunctionValues1 inputGradientValues
       gradientValues =
     ScaleAndAdd (Get00Element gradientValues) inputFunctionValues1 inputGradientValues"

definition DummyCriterion_ComputeInputPartial ::
  "nat \<Rightarrow> DummyCriterionNode \<Rightarrow> Network \<Rightarrow> (DummyCriterionNode \<times> Network) result" where
  "DummyCriterion_ComputeInputPartial inputIndex n net =
     (if inputIndex > 2 then
        Inl (InvalidArgument ''DummyCriterionNode only takes three inputs.'', (n, net))
      else if inputIndex = 0 then
        Inl (LogicError ''DummyCriterionNode: derivatives with respect to objective features are not necessary, not implemented yet.'', (n, net))
      else if inputIndex = 1 then
        Inl (LogicError ''DummyCriterionNode: derivatives with respect to derivative features are not necessary, not implemented yet.'', (n, net))
      else
        Inr (n, setInputGradient n net inputIndex
          (DummyCriterion_ComputeInputPartialThree (FunctionValues (Inputs n net 1))
             (GradientValues (Inputs n net inputIndex)) (GradientValues n))))"

text \<open>
  \<open>DummyCriterionNode::InferImageDimsFromInputs\<close>. The base member
  \<open>InferImageDimsFromInput(index, outputSameAsInput)\<close> is absent and is the parameter
  \<open>inferImageDimsFromInput\<close>.
\<close>

definition DummyCriterion_InferImageDimsFromInputs ::
  "(nat \<Rightarrow> bool \<Rightarrow> DummyCriterionNode \<Rightarrow> Network \<Rightarrow> DummyCriterionNode)
     \<Rightarrow> DummyCriterionNode \<Rightarrow> Network \<Rightarrow> DummyCriterionNode" where
  "DummyCriterion_InferImageDimsFromInputs inferImageDimsFromInput n net =
     (inferImageDimsFromInput 0 False n net)
       \<lparr>m_outputChannels := 1, m_outputWidth := 1, m_outputHeight := 1\<rparr>"

definition setInputFunctionValues ::
  "'a ComputationNode_scheme \<Rightarrow> Network \<Rightarrow> nat \<Rightarrow> Matrix \<Rightarrow> Network" where
  "setInputFunctionValues n net i v =
     net(m_children n ! i := (net (m_children n ! i))\<lparr>FunctionValues := v\<rparr>)"

text \<open>
  \<open>DummyCriterionNode::Validate\<close>. \<open>Base::Validate\<close> is absent and is the parameter
  \<open>baseValidate\<close>; the checks follow in the source's order.
\<close>

definition DummyCriterion_Validate ::
  "(DummyCriterionNode \<Rightarrow> Network \<Rightarrow> (DummyCriterionNode \<times> Network) result)
     \<Rightarrow> (nat \<Rightarrow> bool \<Rightarrow> DummyCriterionNode \<Rightarrow> Network \<Rightarrow> DummyCriterionNode)
     \<Rightarrow> DummyCriterionNode \<Rightarrow> Network \<Rightarrow> (DummyCriterionNode \<times> Network) result" where
  "DummyCriterion_Validate baseValidate inferImageDimsFromInput n0 net0 =
     (case baseValidate n0 net0 of
        Inl e \<Rightarrow> Inl e
      | Inr (n, net) \<Rightarrow>
          if length (m_children n) \<noteq> 3 then
            Inl (LogicError ''DummyCriterionNode criterion requires three inputs.'', (n, net))
          else if OperationName (Inputs n net 0) \<noteq> ''InputValue'' then
            Inl (LogicError ''DummyCriterionNode criterion requires the first input to be computed objectives.'', (n, net))
          else if OperationName (Inputs n net 0) \<noteq> ''InputValue'' then
            Inl (LogicError ''DummyCriterionNode criterion requires the first input to be computed derivatives.'', (n, net))
          else if GetNumRows (FunctionValues (Inputs n net 0)) \<noteq> 1 then
            Inl (LogicError ''DummyCriterionNode criterion requires the first input to have dimension 1.'', (n, net))
          else if HasNoElements (FunctionValues (Inputs n net 0))
                \<or> HasNoElements (FunctionValues (Inputs n net 1))
                \<or> HasNoElements (FunctionValues (Inputs n net 2)) then
            Inl (LogicError ''DummyCriterionNode operation: one of the operants has 0 element.'', (n, net))
          else if GetNumRows (FunctionValues (Inputs n net 1))
                \<noteq> GetNumRows (FunctionValues (Inputs n net 2)) then
            Inl (LogicError ''The Matrix dimension in the DummyCriterionNode operation does not match.'', (n, net))
          else
            (let net1 =
                   (if GetNumCols (FunctionValues (Inputs n net 1))
                       \<noteq> GetNumCols (FunctionValues (Inputs n net 2))
                    then setInputFunctionValues n net 1
                           (Resize (FunctionValues (Inputs n net 1))
                              (GetNumRows (FunctionValues (Inputs n net 1)))
                              (GetNumCols (FunctionValues (Inputs n net 2))))
                    else net);
                 n1 = n\<lparr>FunctionValues := Resize (FunctionValues n) 1 1\<rparr>
             in Inr (DummyCriterion_InferImageDimsFromInputs inferImageDimsFromInput n1 net1,
                     net1)))"

subsection \<open>NoiseContrastiveEstimationNode\<close>

text \<open>
  The enumeration \<open>NCEEvalMode\<close> is its underlying 32-bit integer: a load can put any
  value into \<open>m_evalMode\<close>, and the comparison \<open>m_evalMode > NCEEvalMode::None\<close> is a
  signed one.
\<close>

type_synonym NCEEvalMode = "32 word"

definition NCEEvalMode_Softmax :: NCEEvalMode where
  "NCEEvalMode_Softmax = 0"

definition NCEEvalMode_Unnormalized :: NCEEvalMode where
  "NCEEvalMode_Unnormalized = 1"

definition NCEEvalMode_None :: NCEEvalMode where
  "NCEEvalMode_None = 2"

record NoiseContrastiveEstimationNode = ComputationNode +
  m_logSoftmax_NCE :: Matrix
  m_ncePrediction :: Matrix
  m_needRecomputeGradientToSoftmaxInput_NCE :: bool
  m_evalMode :: NCEEvalMode

text \<open>
  Modelled from the spec: the class \<open>File\<close> (File.h is absent), a binary stream with a
  cursor. A value of the enumeration is \<open>sizeof(m_evalMode)\<close> = 4 bytes, least
  significant first. Reading past the end raises; writing replaces or extends the bytes
  at the cursor.
\<close>

record File =
  contents :: "8 word list"
  GetPosition :: nat

definition sizeof_evalMode :: nat where
  "sizeof_evalMode = 4"

definition SetPosition :: "File \<Rightarrow> nat \<Rightarrow> File" where
  "SetPosition fstream pos = fstream\<lparr>GetPosition := pos\<rparr>"

definition bytesOfMode :: "NCEEvalMode \<Rightarrow> 8 word list" where
  "bytesOfMode w = [ucast w, ucast (drop_bit 8 w), ucast (drop_bit 16 w), ucast (drop_bit 24 w)]"

definition modeOfBytes :: "8 word list \<Rightarrow> NCEEvalMode" where
  "modeOfBytes bs =
     or (ucast (bs ! 0))
       (or (push_bit 8 (ucast (bs ! 1)))
          (or (push_bit 16 (ucast (bs ! 2))) (push_bit 24 (ucast (bs ! 3)))))"

definition putMode :: "File \<Rightarrow> NCEEvalMode \<Rightarrow> File" where
  "putMode fstream w =
     (let p = GetPosition fstream; bs = contents fstream in
        \<lparr>contents = take p (bs @ replicate (p - length bs) 0) @ bytesOfMode w
                      @ drop (p + sizeof_evalMode) bs,
         GetPosition = p + sizeof_evalMode\<rparr>)"

definition getMode :: "File \<Rightarrow> error + (NCEEvalMode \<times> File)" where
  "getMode fstream =
     (let p = GetPosition fstream; bs = contents fstream in
        if p + sizeof_evalMode \<le> length bs then
          Inr (modeOfBytes (take sizeof_evalMode (drop p bs)),
               fstream\<lparr>GetPosition := p + sizeof_evalMode\<rparr>)
        else Inl (RuntimeError ''error reading from file''))"

text \<open>
  \<open>NoiseContrastiveEstimationNode::SaveToFile\<close> and \<open>LoadFromFile\<close>. The members
  \<open>Base::SaveToFile\<close> and \<open>Base::LoadFromFile\<close> are absent and are the parameters
  \<open>baseSaveToFile\<close> and \<open>baseLoadFromFile\<close>.
\<close>

definition NCE_SaveToFile ::
  "(NoiseContrastiveEstimationNode \<Rightarrow> File \<Rightarrow> File)
     \<Rightarrow> NoiseContrastiveEstimationNode \<Rightarrow> File \<Rightarrow> File" where
  "NCE_SaveToFile baseSaveToFile n fstream = putMode (baseSaveToFile n fstream) (m_evalMode n)"

definition NCE_LoadFromFile ::
  "(NoiseContrastiveEstimationNode \<Rightarrow> File \<Rightarrow> nat
       \<Rightarrow> (NoiseContrastiveEstimationNode \<times> File) result)
     \<Rightarrow> NoiseContrastiveEstimationNode \<Rightarrow> File \<Rightarrow> nat
     \<Rightarrow> (NoiseContrastiveEstimationNode \<times> File) result" where
  "NCE_LoadFromFile baseLoadFromFile n0 fstream0 modelVersion =
     (case baseLoadFromFile n0 fstream0 modelVersion of
        Inl e \<Rightarrow> Inl e
      | Inr (n, fstream) \<Rightarrow>
          (case getMode fstream of
             Inl e \<Rightarrow> Inl (e, (n, fstream))
           | Inr (v, fstream1) \<Rightarrow>
               if sint v > sint NCEEvalMode_None then
                 Inr (n\<lparr>m_evalMode := NCEEvalMode_None\<rparr>,
                      SetPosition fstream1 (GetPosition fstream1 - sizeof_evalMode))
               else Inr (n\<lparr>m_evalMode := v\<rparr>, fstream1)))"

text \<open>
  \<open>NoiseContrastiveEstimationNode::ComputeInputPartial\<close>. The tensor operation
  \<open>AssignNCEDerivative\<close> is absent and is the parameter \<open>assignNCEDerivative\<close>.
\<close>

definition NCE_ComputeInputPartial ::
  "(Matrix \<Rightarrow> Matrix \<Rightarrow> Matrix \<Rightarrow> Matrix \<Rightarrow> Matrix \<Rightarrow> nat \<Rightarrow> Matrix)
     \<Rightarrow> nat \<Rightarrow> NoiseContrastiveEstimationNode \<Rightarrow> Network
     \<Rightarrow> (NoiseContrastiveEstimationNode \<times> Network) result" where
  "NCE_ComputeInputPartial assignNCEDerivative inputIndex n0 net =
     (let n = n0\<lparr>m_needRecomputeGradientToSoftmaxInput_NCE := False\<rparr> in
        if m_evalMode n \<noteq> NCEEvalMode_None then
          Inl (LogicError ''ComputeInputPartial should only be called in training mode'', (n, net))
        else if inputIndex = 0 then
          Inl (InvalidArgument ''ComputeInput partial should not be called for label'', (n, net))
        else
          Inr (n, setInputGradient n net inputIndex
            (assignNCEDerivative (GradientValues (Inputs n net inputIndex)) (m_ncePrediction n)
               (FunctionValues (Inputs n net 0)) (FunctionValues (Inputs n net 1))
               (FunctionValues (Inputs n net 2)) inputIndex)))"

text \<open>
  The sign count of \<open>NoiseContrastiveEstimationNode::EvaluateThisNode\<close>: the loop over
  the columns of the one-row label tensor.
\<close>

fun countSigns :: "Matrix \<Rightarrow> nat list \<Rightarrow> int \<times> int \<Rightarrow> int \<times> int" where
  "countSigns lbl [] (positive, negative) = (positive, negative)"
| "countSigns lbl (i # is) (positive, negative) =
     (if Elem lbl 0 i > 0 then countSigns lbl is (positive + 1, negative)
      else if Elem lbl 0 i < 0 then countSigns lbl is (positive, negative + 1)
      else countSigns lbl is (positive, negative))"

datatype NCEBranch = SoftmaxBranch | UnnormalizedBranch | NCEBranch

text \<open>
  The branch that \<open>EvaluateThisNode\<close> takes. \<open>ndebug\<close> says whether \<open>assert\<close> is
  compiled out; with assertions on, mixed signs abort.
\<close>

definition NCE_EvaluateThisNode_branch ::
  "bool \<Rightarrow> NoiseContrastiveEstimationNode \<Rightarrow> Network \<Rightarrow> error + NCEBranch" where
  "NCE_EvaluateThisNode_branch ndebug n net =
     (let lbl = FunctionValues (Inputs n net 0);
          (positive, negative) =
             (if GetNumRows lbl = 1 then countSigns lbl [0..<GetNumCols lbl] (0, 0)
              else (0, 0))
      in
        if GetNumRows lbl = 1 \<and> \<not> ndebug \<and> positive * negative \<noteq> 0 then
          Inl (AssertionFailed ''positive * negative == 0'')
        else if m_evalMode n = NCEEvalMode_Softmax \<or> (GetNumRows lbl = 1 \<and> positive > 0) then
          Inr SoftmaxBranch
        else if m_evalMode n = NCEEvalMode_Unnormalized
                \<or> (GetNumRows lbl = 1 \<and> negative > 0) then
          Inr UnnormalizedBranch
        else Inr NCEBranch)"

text \<open>
  The tensor operations of the three branches are absent; each branch is a parameter
  that maps the node and the network to the node with its output (and scratch) written.
\<close>

definition NCE_EvaluateThisNode ::
  "bool
     \<Rightarrow> (NoiseContrastiveEstimationNode \<Rightarrow> Network \<Rightarrow> NoiseContrastiveEstimationNode)
     \<Rightarrow> (NoiseContrastiveEstimationNode \<Rightarrow> Network \<Rightarrow> NoiseContrastiveEstimationNode)
     \<Rightarrow> (NoiseContrastiveEstimationNode \<Rightarrow> Network \<Rightarrow> NoiseContrastiveEstimationNode)
     \<Rightarrow> NoiseContrastiveEstimationNode \<Rightarrow> Network
     \<Rightarrow> (NoiseContrastiveEstimationNode \<times> Network) result" where
  "NCE_EvaluateThisNode ndebug evalSoftmax evalUnnormalized evalNCE n net =
     (case NCE_EvaluateThisNode_branch ndebug n net of
        Inl e \<Rightarrow> Inl (e, (n, net))
      | Inr SoftmaxBranch \<Rightarrow>
          Inr ((evalSoftmax n net)\<lparr>m_needRecomputeGradientToSoftmaxInput_NCE := True\<rparr>, net)
      | Inr UnnormalizedBranch \<Rightarrow>
          Inr ((evalUnnormalized n net)\<lparr>m_needRecomputeGradientToSoftmaxInput_NCE := True\<rparr>, net)
      | Inr NCEBranch \<Rightarrow>
          Inr ((evalNCE n net)\<lparr>m_needRecomputeGradientToSoftmaxInput_NCE := True\<rparr>, net))"

subsection \<open>Further tensor operations\<close>

text \<open>
  Modelled from the spec: \<open>Matrix::ColumnSlice(start, n)\<close>, the view of \<open>n\<close> columns
  from column \<open>start\<close>. A view shares the storage of its tensor: \<open>setColumnSlice\<close>
  writes the columns of a view back, which is what a write through the view does.
\<close>

definition ColumnSlice :: "Matrix \<Rightarrow> nat \<Rightarrow> nat \<Rightarrow> Matrix" where
  "ColumnSlice m start n = m\<lparr>GetNumCols := n, Elem := \<lambda>i j. Elem m i (start + j)\<rparr>"

definition setColumnSlice :: "Matrix \<Rightarrow> nat \<Rightarrow> Matrix \<Rightarrow> Matrix" where
  "setColumnSlice m start s =
     m\<lparr>Elem := \<lambda>i j. if start \<le> j \<and> j < start + GetNumCols s then Elem s i (j - start)
                        else Elem m i j\<rparr>"

text \<open>Modelled from the spec: \<open>m(i, j) = v\<close>, element-wise set.\<close>

definition setElem :: "Matrix \<Rightarrow> nat \<Rightarrow> nat \<Rightarrow> real \<Rightarrow> Matrix" where
  "setElem m i j v = m\<lparr>Elem := \<lambda>i' j'. if i' = i \<and> j' = j then v else Elem m i' j'\<rparr>"

text \<open>Modelled from the spec: \<open>Matrix::SetValue(v)\<close> sets every element to \<open>v\<close>.\<close>

definition SetValue :: "Matrix \<Rightarrow> real \<Rightarrow> Matrix" where
  "SetValue m v = m\<lparr>Elem := \<lambda>i j. v\<rparr>"

text \<open>Modelled from the spec: \<open>Matrix::SetValue(other)\<close> copies the shape and the elements.\<close>

definition SetValueOf :: "Matrix \<Rightarrow> Matrix \<Rightarrow> Matrix" where
  "SetValueOf m other =
     m\<lparr>GetNumRows := GetNumRows other, GetNumCols := GetNumCols other, Elem := Elem other\<rparr>"

text \<open>Modelled from the spec: \<open>Matrix::InplaceExp\<close>, element-wise exponential.\<close>

definition InplaceExp :: "Matrix \<Rightarrow> Matrix" where
  "InplaceExp m = m\<lparr>Elem := \<lambda>i j. exp (Elem m i j)\<rparr>"

text \<open>Modelled from the spec: \<open>m *= alpha\<close>, element-wise scaling.\<close>

definition timesAssign :: "Matrix \<Rightarrow> real \<Rightarrow> Matrix" where
  "timesAssign m alpha = m\<lparr>Elem := \<lambda>i j. Elem m i j * alpha\<rparr>"

text \<open>Modelled from the spec: \<open>m += other\<close>, element-wise addition.\<close>

definition plusAssign :: "Matrix \<Rightarrow> Matrix \<Rightarrow> Matrix" where
  "plusAssign m other = m\<lparr>Elem := \<lambda>i j. Elem m i j + Elem other i j\<rparr>"

text \<open>
  Modelled from the spec: \<open>Matrix::AssignInnerProductOfMatrices(a, b)\<close>, the 1 x 1 tensor
  of the sum of the element-wise products.
\<close>

definition InnerProductOfMatrices :: "Matrix \<Rightarrow> Matrix \<Rightarrow> real" where
  "InnerProductOfMatrices a b =
     (\<Sum>j<GetNumCols a. \<Sum>i<GetNumRows a. Elem a i j * Elem b i j)"

definition AssignInnerProductOfMatrices :: "Matrix \<Rightarrow> Matrix \<Rightarrow> Matrix \<Rightarrow> Matrix" where
  "AssignInnerProductOfMatrices this a b =
     this\<lparr>GetNumRows := 1, GetNumCols := 1, Elem := \<lambda>i j. InnerProductOfMatrices a b\<rparr>"

text \<open>
  Modelled from the spec: \<open>Matrix::LogAddSumOfElements\<close>, the log-sum-exp of the
  elements: \<open>LogAdd\<close> folded over them from \<open>LZERO\<close>. Both \<open>LogAdd\<close> (the stable
  log-sum-exp of two values) and the sentinel \<open>LZERO\<close> are absent and are parameters.
\<close>

definition LogAddSumOfElements :: "real \<Rightarrow> (real \<Rightarrow> real \<Rightarrow> real) \<Rightarrow> Matrix \<Rightarrow> real" where
  "LogAddSumOfElements LZERO LogAdd a =
     foldl LogAdd LZERO
       (concat (map (\<lambda>j. map (\<lambda>i. Elem a i j) [0..<GetNumRows a]) [0..<GetNumCols a]))"

subsection \<open>CRFNode\<close>

record CRFNode = ComputationNode +
  mAlpha :: Matrix
  mBeta :: Matrix
  mPostProb :: Matrix
  mStartLbl :: int
  mEndLbl :: int

text \<open>
  The search \<open>x = -1; for (ik ...) if (lbls(ik, t) != 0) { x = ik; break; }\<close> that
  the node repeats for the label of a column.
\<close>

fun findLabel :: "Matrix \<Rightarrow> nat \<Rightarrow> nat list \<Rightarrow> int" where
  "findLabel lbls t [] = - 1"
| "findLabel lbls t (ik # iks) =
     (if Elem lbls ik t \<noteq> 0 then int ik else findLabel lbls t iks)"

text \<open>\<open>CRFNode::ForwardCompute\<close>: the loops over \<open>j\<close>, \<open>k\<close> and \<open>t\<close>, innermost first.\<close>

definition ForwardCompute_j ::
  "real \<Rightarrow> (real \<Rightarrow> real \<Rightarrow> real) \<Rightarrow> Matrix \<Rightarrow> Matrix \<Rightarrow> int \<Rightarrow> nat \<Rightarrow> nat
     \<Rightarrow> real \<Rightarrow> nat \<Rightarrow> real" where
  "ForwardCompute_j LZERO LogAdd alpha pair_scores firstLbl t k fTmp j =
     (let fAlpha0 = (if int j = firstLbl then 0 else LZERO);
          fAlpha = (if t > 0 then Elem alpha j (t - 1) else fAlpha0)
      in LogAdd fTmp (fAlpha + Elem pair_scores k j))"

definition ForwardCompute_k ::
  "real \<Rightarrow> (real \<Rightarrow> real \<Rightarrow> real) \<Rightarrow> Matrix \<Rightarrow> Matrix \<Rightarrow> int \<Rightarrow> nat \<Rightarrow> nat
     \<Rightarrow> Matrix \<Rightarrow> nat \<Rightarrow> Matrix" where
  "ForwardCompute_k LZERO LogAdd pos_scores pair_scores firstLbl iNumLab t alpha k =
     (let fTmp0 = foldl (ForwardCompute_j LZERO LogAdd alpha pair_scores firstLbl t k) LZERO
                    [0..<iNumLab];
          fTmp = fTmp0 + Elem pos_scores k t
      in setElem alpha k t fTmp)"

definition ForwardCompute_t ::
  "real \<Rightarrow> (real \<Rightarrow> real \<Rightarrow> real) \<Rightarrow> Matrix \<Rightarrow> Matrix \<Rightarrow> int \<Rightarrow> nat
     \<Rightarrow> Matrix \<Rightarrow> nat \<Rightarrow> Matrix" where
  "ForwardCompute_t LZERO LogAdd pos_scores pair_scores firstLbl iNumLab alpha t =
     foldl (ForwardCompute_k LZERO LogAdd pos_scores pair_scores firstLbl iNumLab t) alpha
       [0..<iNumLab]"

definition ForwardCompute ::
  "real \<Rightarrow> (real \<Rightarrow> real \<Rightarrow> real) \<Rightarrow> Matrix \<Rightarrow> Matrix \<Rightarrow> Matrix \<Rightarrow> Matrix \<Rightarrow> Matrix" where
  "ForwardCompute LZERO LogAdd alpha lbls pos_scores pair_scores =
     (let iNumPos = GetNumCols lbls;
          iNumLab = GetNumRows lbls;
          firstLbl = findLabel lbls 0 [0..<GetNumRows lbls];
          alpha1 = Resize alpha iNumLab iNumPos
      in foldl (ForwardCompute_t LZERO LogAdd pos_scores pair_scores firstLbl iNumLab) alpha1
           [0..<iNumPos])"

text \<open>
  \<open>CRFNode::BackwardCompute\<close> and \<open>TransGrdCompute\<close> forward to the tensor operations
  \<open>RCRFBackwardCompute\<close> and \<open>RCRFTransGrdCompute\<close>, which are absent and are the
  parameters \<open>rcrfBackwardCompute\<close> (it returns the new \<open>beta\<close> and \<open>functionValues\<close>)
  and \<open>rcrfTransGrdCompute\<close> (it returns the new \<open>grd\<close>).
\<close>

type_synonym RCRFBackward =
  "Matrix \<Rightarrow> Matrix \<Rightarrow> Matrix \<Rightarrow> Matrix \<Rightarrow> Matrix \<Rightarrow> Matrix \<Rightarrow> int \<Rightarrow> Matrix \<times> Matrix"

type_synonym RCRFTransGrd =
  "Matrix \<Rightarrow> Matrix \<Rightarrow> Matrix \<Rightarrow> Matrix \<Rightarrow> Matrix \<Rightarrow> int \<Rightarrow> int \<Rightarrow> Matrix"

definition BackwardCompute ::
  "RCRFBackward \<Rightarrow> Matrix \<Rightarrow> Matrix \<Rightarrow> Matrix \<Rightarrow> Matrix \<Rightarrow> Matrix \<Rightarrow> Matrix \<Rightarrow> int
     \<Rightarrow> Matrix \<times> Matrix" where
  "BackwardCompute rcrfBackwardCompute alpha beta functionValues lbls pos_scores pair_scores
       shift =
     rcrfBackwardCompute alpha beta functionValues lbls pos_scores pair_scores shift"

definition TransGrdCompute ::
  "RCRFTransGrd \<Rightarrow> Matrix \<Rightarrow> Matrix \<Rightarrow> Matrix \<Rightarrow> Matrix \<Rightarrow> Matrix \<Rightarrow> int \<Rightarrow> int \<Rightarrow> Matrix" where
  "TransGrdCompute rcrfTransGrdCompute lbls alpha beta pair_scores grd startLbl shift =
     rcrfTransGrdCompute lbls alpha beta pair_scores grd startLbl shift"

definition PostProbCompute :: "Matrix \<Rightarrow> Matrix \<Rightarrow> Matrix \<Rightarrow> Matrix" where
  "PostProbCompute postprob alpha beta =
     (let iNumPos = GetNumCols alpha; iNumLab = GetNumRows alpha in
        InplaceExp (SetValueOf (Resize postprob iNumLab iNumPos) beta))"

text \<open>
  The transition score of the label path, \<open>tscore += pair_scores(j, i)\<close> for each pair
  of neighbouring columns. A column without a label gives the index -1, an access
  outside the tensor, which is the error \<open>OutOfRange\<close> here.
\<close>

fun transitionScore :: "Matrix \<Rightarrow> Matrix \<Rightarrow> nat list \<Rightarrow> real \<Rightarrow> error + real" where
  "transitionScore lbls pair_scores [] tscore = Inr tscore"
| "transitionScore lbls pair_scores (t # ts) tscore =
     (let i = findLabel lbls t [0..<GetNumRows lbls];
          j = findLabel lbls (t + 1) [0..<GetNumRows lbls]
      in if i < 0 \<or> j < 0 \<or> int (GetNumRows pair_scores) \<le> j
            \<or> int (GetNumCols pair_scores) \<le> i then
           Inl (OutOfRange ''pair_scores(j, i)'')
         else transitionScore lbls pair_scores ts (tscore + Elem pair_scores (nat j) (nat i)))"

text \<open>
  \<open>CRFNode::EvaluateThisNodeS\<close>, for one sequence. It returns the tensors and labels
  it writes: \<open>postprob\<close>, \<open>alpha\<close>, \<open>beta\<close>, \<open>functionValues\<close>, \<open>firstLbl\<close>, \<open>lastLbl\<close>.
  With no column at all, column \<open>nObs - 1\<close> is outside the tensors.
\<close>

definition CRF_EvaluateThisNodeS ::
  "real \<Rightarrow> (real \<Rightarrow> real \<Rightarrow> real) \<Rightarrow> RCRFBackward
     \<Rightarrow> Matrix \<Rightarrow> Matrix \<Rightarrow> Matrix \<Rightarrow> Matrix \<Rightarrow> Matrix \<Rightarrow> Matrix \<Rightarrow> Matrix
     \<Rightarrow> error + (Matrix \<times> Matrix \<times> Matrix \<times> Matrix \<times> int \<times> int)" where
  "CRF_EvaluateThisNodeS LZERO LogAdd rcrfBackwardCompute postprob alpha beta functionValues
       lbls pos_scores pair_scores =
     (let nObs = GetNumCols lbls in
        if nObs = 0 then Inl (OutOfRange ''lbls(ik, nObs - 1)'')
        else
          (let alpha1 = ForwardCompute LZERO LogAdd alpha lbls pos_scores pair_scores;
               (beta1, functionValues1) =
                  BackwardCompute rcrfBackwardCompute alpha1 beta functionValues lbls
                    pos_scores pair_scores 1;
               postprob1 = PostProbCompute postprob alpha1 beta1;
               firstLbl = findLabel lbls 0 [0..<GetNumRows lbls];
               lastLbl = findLabel lbls (nObs - 1) [0..<GetNumRows lbls];
               functionValues2 = AssignInnerProductOfMatrices functionValues1 lbls pos_scores;
               a = ColumnSlice alpha1 (nObs - 1) 1;
               fAlpha = LogAddSumOfElements LZERO LogAdd a
           in case transitionScore lbls pair_scores [0..<nObs - 1] 0 of
                Inl e \<Rightarrow> Inl e
              | Inr tscore0 \<Rightarrow>
                  (let tscore1 = tscore0 + Get00Element functionValues2;
                       tscore = tscore1 - fAlpha;
                       functionValues3 = SetValue functionValues2 tscore;
                       functionValues4 = timesAssign functionValues3 (- 1)
                   in Inr (postprob1, alpha1, beta1, functionValues4, firstLbl, lastLbl))))"

text \<open>
  \<open>CRFNode::EvaluateThisNode\<close>: the body of the loop over the parallel sequences, on
  the node and the local \<open>funcVal\<close>, then the whole. \<open>GetNumParallelSequences()\<close> is a
  member of the absent base class; its value is the parameter \<open>nS\<close>.
\<close>

definition CRF_EvaluateThisNode_i ::
  "real \<Rightarrow> (real \<Rightarrow> real \<Rightarrow> real) \<Rightarrow> RCRFBackward \<Rightarrow> Network \<Rightarrow> nat
     \<Rightarrow> (CRFNode \<times> Matrix) result \<Rightarrow> nat \<Rightarrow> (CRFNode \<times> Matrix) result" where
  "CRF_EvaluateThisNode_i LZERO LogAdd rcrfBackwardCompute net nstep r i =
     (case r of
        Inl e \<Rightarrow> Inl e
      | Inr (n, funcVal) \<Rightarrow>
          (let postProbSlice = ColumnSlice (mPostProb n) (i * nstep) nstep;
               alphaSlice = ColumnSlice (mAlpha n) (i * nstep) nstep;
               betaSlice = ColumnSlice (mBeta n) (i * nstep) nstep;
               labelSlice = ColumnSlice (FunctionValues (Inputs n net 0)) (i * nstep) nstep;
               posScoreSlice = ColumnSlice (FunctionValues (Inputs n net 1)) (i * nstep) nstep
           in case CRF_EvaluateThisNodeS LZERO LogAdd rcrfBackwardCompute postProbSlice
                     alphaSlice betaSlice funcVal labelSlice posScoreSlice
                     (FunctionValues (Inputs n net 2)) of
                Inl e \<Rightarrow> Inl (e, (n, funcVal))
              | Inr (postprob1, alpha1, beta1, funcVal1, firstLbl, lastLbl) \<Rightarrow>
                  Inr (n\<lparr>mPostProb := setColumnSlice (mPostProb n) (i * nstep) postprob1,
                          mAlpha := setColumnSlice (mAlpha n) (i * nstep) alpha1,
                          mBeta := setColumnSlice (mBeta n) (i * nstep) beta1,
                          mStartLbl := firstLbl,
                          mEndLbl := lastLbl,
                          FunctionValues := plusAssign (FunctionValues n) funcVal1\<rparr>,
                       funcVal1)))"

definition CRF_EvaluateThisNode ::
  "real \<Rightarrow> (real \<Rightarrow> real \<Rightarrow> real) \<Rightarrow> RCRFBackward \<Rightarrow> nat \<Rightarrow> CRFNode \<Rightarrow> Network
     \<Rightarrow> (CRFNode \<times> Network) result" where
  "CRF_EvaluateThisNode LZERO LogAdd rcrfBackwardCompute nS n0 net =
     (let nrow = GetNumRows (FunctionValues (Inputs n0 net 0));
          ncol = GetNumCols (FunctionValues (Inputs n0 net 0));
          n1 = n0\<lparr>mAlpha := Resize (mAlpha n0) nrow ncol,
                  mBeta := Resize (mBeta n0) nrow ncol,
                  mPostProb := Resize (mPostProb n0) nrow ncol\<rparr>;
          n2 = n1\<lparr>FunctionValues := SetValue (FunctionValues n1) 0\<rparr>;
          funcVal = FunctionValues n2
      in if nS = 0 then Inl (DivisionByZero ''ncol / GetNumParallelSequences()'', (n2, net))
         else
           (case foldl (CRF_EvaluateThisNode_i LZERO LogAdd rcrfBackwardCompute net (ncol div nS))
                   (Inr (n2, funcVal)) [0..<nS] of
              Inl (e, (n, fv)) \<Rightarrow> Inl (e, (n, net))
            | Inr (n, fv) \<Rightarrow> Inr (n, net)))"

definition ErrorSignalToPostitionDependentNode ::
  "Matrix \<Rightarrow> Matrix \<Rightarrow> Matrix \<Rightarrow> Matrix \<Rightarrow> Matrix" where
  "ErrorSignalToPostitionDependentNode gradientValues labls postProb grd =
     AddScaledDifference gradientValues postProb labls grd"

definition ErrorSignalToTransitionNode ::
  "RCRFTransGrd \<Rightarrow> Matrix \<Rightarrow> Matrix \<Rightarrow> Matrix \<Rightarrow> Matrix \<Rightarrow> Matrix \<Rightarrow> int \<Rightarrow> int \<Rightarrow> Matrix" where
  "ErrorSignalToTransitionNode rcrfTransGrdCompute labls alpha beta pair_scores grd startLbl
       shift =
     TransGrdCompute rcrfTransGrdCompute labls alpha beta pair_scores grd startLbl shift"

text \<open>
  \<open>CRFNode::ComputeInputPartial\<close>. \<open>ndebug\<close> says whether \<open>assert\<close> is compiled out.
\<close>

definition CRF_ComputeInputPartial ::
  "bool \<Rightarrow> RCRFTransGrd \<Rightarrow> nat \<Rightarrow> nat \<Rightarrow> CRFNode \<Rightarrow> Network \<Rightarrow> (CRFNode \<times> Network) result" where
  "CRF_ComputeInputPartial ndebug rcrfTransGrdCompute nS inputIndex n net =
     (if inputIndex \<noteq> 1 \<and> inputIndex \<noteq> 2 then
        Inl (InvalidArgument ''CRFNode only takes with respect to input and weight.'', (n, net))
      else if inputIndex = 1 then
        Inr (n, setInputGradient n net inputIndex
          (ErrorSignalToPostitionDependentNode (GradientValues n)
             (FunctionValues (Inputs n net 0)) (mPostProb n)
             (GradientValues (Inputs n net inputIndex))))
      else if inputIndex = 2 then
        (let ncol = GetNumCols (mAlpha n) in
           if nS = 0 then Inl (DivisionByZero ''ncol / GetNumParallelSequences()'', (n, net))
           else if \<not> ndebug \<and> HasNoElements (GradientValues (Inputs n net inputIndex)) then
             Inl (AssertionFailed
               ''Inputs(inputIndex)->GradientValues().GetNumElements() > 0'', (n, net))
           else
             Inr (n, foldl
               (\<lambda>net' i. setInputGradient n net' inputIndex
                  (ErrorSignalToTransitionNode rcrfTransGrdCompute
                     (ColumnSlice (FunctionValues (Inputs n net' 0)) (i * (ncol div nS))
                        (ncol div nS))
                     (ColumnSlice (mAlpha n) (i * (ncol div nS)) (ncol div nS))
                     (ColumnSlice (mBeta n) (i * (ncol div nS)) (ncol div nS))
                     (FunctionValues (Inputs n net' inputIndex))
                     (GradientValues (Inputs n net' inputIndex))
                     (mStartLbl n) 1))
               net [0..<nS]))
      else Inr (n, net))"

subsection \<open>CrossEntropyNode, MatrixL1RegNode, MatrixL2RegNode\<close>













subsection \<open>ClassBasedCrossEntropyWithSoftmaxNode\<close>

text \<open>
  Modelled from the spec: \<open>Matrix::MultiplyAndAdd(a, transposeA, b, transposeB, c)\<close> is
  \<open>c += op(a) * op(b)\<close>, the matrix product of the (transposed) operands.
\<close>

definition opElem :: "Matrix \<Rightarrow> bool \<Rightarrow> nat \<Rightarrow> nat \<Rightarrow> real" where
  "opElem a transposeA i k = (if transposeA then Elem a k i else Elem a i k)"

definition opInner :: "Matrix \<Rightarrow> bool \<Rightarrow> nat" where
  "opInner a transposeA = (if transposeA then GetNumRows a else GetNumCols a)"


text \<open>Modelled from the spec: \<open>this.AssignProductOf(a, transposeA, b, transposeB)\<close>.\<close>

definition AssignProductOf :: "Matrix \<Rightarrow> Matrix \<Rightarrow> bool \<Rightarrow> Matrix \<Rightarrow> bool \<Rightarrow> Matrix" where
  "AssignProductOf this a transposeA b transposeB =
     this\<lparr>GetNumRows := (if transposeA then GetNumCols a else GetNumRows a),
          GetNumCols := (if transposeB then GetNumRows b else GetNumCols b),
          Elem := \<lambda>i j. \<Sum>k<opInner a transposeA.
                    opElem a transposeA i k * opElem b transposeB k j\<rparr>"

text \<open>
  Modelled from the spec: \<open>Matrix::MinusOneAt(c, position)\<close> subtracts one from the
  element at the linear (column-major) index \<open>position\<close>.
\<close>

definition MinusOneAt :: "Matrix \<Rightarrow> nat \<Rightarrow> Matrix" where
  "MinusOneAt c position =
     c\<lparr>Elem := \<lambda>i j. if j * GetNumRows c + i = position \<and> i < GetNumRows c
                        then Elem c i j - 1 else Elem c i j\<rparr>"

text \<open>Modelled from the spec: \<open>Matrix::Scale(alpha, a)\<close> with a 1 x 1 \<open>alpha\<close> is \<open>a *= alpha(0,0)\<close>.\<close>

definition Scale :: "Matrix \<Rightarrow> Matrix \<Rightarrow> Matrix" where
  "Scale alpha a = a\<lparr>Elem := \<lambda>i j. Get00Element alpha * Elem a i j\<rparr>"

text \<open>
  Modelled from the spec: \<open>Matrix::InplaceLogSoftmax(isColWise)\<close>, the log of the
  soft-max of every column (or of every row).
\<close>

definition InplaceLogSoftmax :: "Matrix \<Rightarrow> bool \<Rightarrow> Matrix" where
  "InplaceLogSoftmax m isColWise =
     m\<lparr>Elem := \<lambda>i j.
         if isColWise then Elem m i j - ln (\<Sum>k<GetNumRows m. exp (Elem m k j))
         else Elem m i j - ln (\<Sum>k<GetNumCols m. exp (Elem m i k))\<rparr>"

text \<open>Modelled from the spec: \<open>this.AssignExpOf(a)\<close>, the element-wise exponential of \<open>a\<close>.\<close>

definition AssignExpOf :: "Matrix \<Rightarrow> Matrix \<Rightarrow> Matrix" where
  "AssignExpOf this a =
     this\<lparr>GetNumRows := GetNumRows a, GetNumCols := GetNumCols a,
          Elem := \<lambda>i j. exp (Elem a i j)\<rparr>"

text \<open>
  Modelled from the spec: \<open>Matrix::AddElementToElement(a, ai, aj, c, ci, cj)\<close> is
  \<open>c(ci, cj) += a(ai, aj)\<close>; it raises when an index is outside its tensor (the source
  catches and rethrows this for a class index that is too large).
\<close>

definition AddElementToElement ::
  "Matrix \<Rightarrow> nat \<Rightarrow> nat \<Rightarrow> Matrix \<Rightarrow> nat \<Rightarrow> nat \<Rightarrow> error + Matrix" where
  "AddElementToElement a ai aj c ci cj =
     (if ai < GetNumRows a \<and> aj < GetNumCols a \<and> ci < GetNumRows c \<and> cj < GetNumCols c then
        Inr (setElem c ci cj (Elem c ci cj + Elem a ai aj))
      else Inl (InvalidArgument ''AddElementToElement: index out of range''))"

text \<open>
  Modelled from the spec: \<open>Matrix::Reshape(r, c)\<close> keeps the elements in their
  column-major order under the new shape.
\<close>

definition Reshape :: "Matrix \<Rightarrow> nat \<Rightarrow> nat \<Rightarrow> Matrix" where
  "Reshape m r c =
     m\<lparr>GetNumRows := r, GetNumCols := c,
        Elem := \<lambda>i j. Elem m ((j * r + i) mod GetNumRows m) ((j * r + i) div GetNumRows m)\<rparr>"

text \<open>Modelled from the spec: \<open>Matrix::FrameSlice(FrameRange(t, 1), t, 1)\<close>, the view of column \<open>t\<close>.\<close>

definition FrameSlice :: "Matrix \<Rightarrow> nat \<Rightarrow> Matrix" where
  "FrameSlice m t = ColumnSlice m t 1"

text \<open>
  \<open>size_t\<close> is a 64-bit word, and \<open>rgt_bnd - lft_bnd\<close> wraps around. The cast
  \<open>(size_t)x\<close> of a label entry truncates toward zero: an entry strictly between -1 and
  1 reads as 0. For an entry outside the range of \<open>size_t\<close> (-1 or less, 2^64 or more)
  C++ defines no result; the truncated value is taken modulo 2^64 here.
\<close>

type_synonym size_t = "64 word"

definition to_size_t :: "real \<Rightarrow> size_t" where
  "to_size_t x = word_of_int (if 0 \<le> x then \<lfloor>x\<rfloor> else \<lceil>x\<rceil>)"

record ClassBasedCrossEntropyWithSoftmaxNode = ComputationNode +
  m_logSoftmax :: Matrix
  m_softMax :: Matrix
  m_clsLogSoftmax :: Matrix
  m_clsSoftmax :: Matrix
  m_grdToSoftMaxInput :: Matrix
  m_needRecomputeGradientToSoftmaxInput :: bool
  m_nbrCls :: nat
  m_totalNbrWords :: size_t



definition ComputeCEPartialToSoftmaxInputs :: "Matrix \<Rightarrow> Matrix \<Rightarrow> nat \<Rightarrow> Matrix" where
  "ComputeCEPartialToSoftmaxInputs inputGradientValues gradientValues y_t =
     Scale gradientValues (MinusOneAt inputGradientValues y_t)"

text \<open>
  \<open>EvaluateThisNodeS\<close>: the tensors it writes, with the running offset \<open>sz\<close> of the
  loop over time.
\<close>

record EvalS =
  ev_functionValues :: Matrix
  ev_logSoftmax :: Matrix
  ev_softMax :: Matrix
  ev_clsLogSoftmax :: Matrix
  ev_clsSoftmax :: Matrix
  ev_totalWords :: size_t
  ev_sz :: size_t

definition totalWords_t :: "Matrix \<Rightarrow> size_t \<Rightarrow> nat \<Rightarrow> size_t" where
  "totalWords_t lbls totalWords t =
     (let lblInfo = ColumnSlice lbls t 1;
          lft_bnd = to_size_t (Elem lblInfo 2 0);
          rgt_bnd = to_size_t (Elem lblInfo 3 0)
      in totalWords + (rgt_bnd - lft_bnd))"

text \<open>The body of the loop over time of \<open>EvaluateThisNodeS\<close>.\<close>

definition ClassBased_EvaluateThisNodeS_t ::
  "MBLayout option \<Rightarrow> Matrix \<Rightarrow> Matrix \<Rightarrow> Matrix \<Rightarrow> EvalS result \<Rightarrow> nat \<Rightarrow> EvalS result" where
  "ClassBased_EvaluateThisNodeS_t layout lbls inputs input_weight r t =
     (case r of
        Inl e \<Rightarrow> Inl e
      | Inr s \<Rightarrow>
          (let lblInfo = ColumnSlice lbls t 1;
               y_t = to_size_t (Elem lblInfo 0 0);
               c_t = to_size_t (Elem lblInfo 1 0);
               lft_bnd = to_size_t (Elem lblInfo 2 0);
               rgt_bnd = to_size_t (Elem lblInfo 3 0);
               nbr_wrd = rgt_bnd - lft_bnd;
               nRow = GetNumRows inputs
           in
             if nbr_wrd = 0 then
               (if y_t = 0 then Inr s
                else Inl (LogicError ''ClassbasedCrossEntropyWithSoftmax::EvaluateThisNodeS label provided but the size of its class is zero. Should never happen. Probably misuse of ClassbasedCrossEntropyWithSoftmax.'', s))
             else
               (let weightForClass = ColumnSlice input_weight (unat lft_bnd) (unat nbr_wrd);
                    softMax_t = ColumnSlice (ev_softMax s) (unat (ev_sz s)) (unat nbr_wrd);
                    logSoftMax_t = ColumnSlice (ev_logSoftmax s) (unat (ev_sz s)) (unat nbr_wrd);
                    (logSoftMax_t1, masked) =
                       MaskToZeroWhenLabelAndFeatureMissing_t layout logSoftMax_t t;
                    s1 = s\<lparr>ev_logSoftmax :=
                            setColumnSlice (ev_logSoftmax s) (unat (ev_sz s)) logSoftMax_t1\<rparr>;
                    r1 =
                      (if masked = False then
                         (let obs = Reshape (ColumnSlice inputs t 1) 1 nRow;
                              logSoftMax_t2 =
                                AssignProductOf logSoftMax_t1 obs False weightForClass False;
                              logSoftMax_t3 = InplaceLogSoftmax logSoftMax_t2 False;
                              softMax_t1 = InplaceExp (SetValueOf softMax_t logSoftMax_t3);
                              s2 = s1\<lparr>ev_logSoftmax :=
                                      setColumnSlice (ev_logSoftmax s1) (unat (ev_sz s))
                                        logSoftMax_t3,
                                    ev_softMax :=
                                      setColumnSlice (ev_softMax s1) (unat (ev_sz s))
                                        softMax_t1\<rparr>
                          in
                            if y_t < lft_bnd then
                              Inl (LogicError ''ClassBasedCrossEntropyWithSoftmax::EvaluateThisNodeS : the word index is smaller than its left bound of its class. This could happen because of reader issues. '', s2)
                            else
                              (let idx_in_class = y_t - lft_bnd in
                                 case AddElementToElement logSoftMax_t3 0 (unat idx_in_class)
                                        (ev_functionValues s2) 0 0 of
                                   Inl e \<Rightarrow> Inl (e, s2)
                                 | Inr fv \<Rightarrow> Inr (s2\<lparr>ev_functionValues := fv\<rparr>)))
                       else Inr s1)
                in case r1 of
                     Inl e \<Rightarrow> Inl e
                   | Inr s3 \<Rightarrow>
                       (let (clsLogSoftmax1, masked2) =
                              MaskToZeroWhenLabelAndFeatureMissing_t layout
                                (ev_clsLogSoftmax s3) t;
                            s4 = s3\<lparr>ev_clsLogSoftmax := clsLogSoftmax1\<rparr>
                        in
                          if masked2 = False then
                            (case AddElementToElement (ev_clsLogSoftmax s4) (unat c_t) t
                                    (ev_functionValues s4) 0 0 of
                               Inl e \<Rightarrow> Inl (e, s4)
                             | Inr fv \<Rightarrow>
                                 Inr (s4\<lparr>ev_functionValues := fv,
                                         ev_sz := ev_sz s4 + nbr_wrd\<rparr>))
                          else Inr (s4\<lparr>ev_sz := ev_sz s4 + nbr_wrd\<rparr>)))))"

definition ClassBased_EvaluateThisNodeS ::
  "MBLayout option \<Rightarrow> EvalS \<Rightarrow> Matrix \<Rightarrow> Matrix \<Rightarrow> Matrix \<Rightarrow> Matrix \<Rightarrow> EvalS result" where
  "ClassBased_EvaluateThisNodeS layout s0 lbls inputs input_weight input_cls_log_post_prob =
     (let totalWords = foldl (totalWords_t lbls) 0 [0..<GetNumCols lbls];
          nT = GetNumCols lbls;
          sz = totalWords;
          softMax = Resize (ev_softMax s0) 1 (unat sz);
          logSoftmax = Resize (ev_logSoftmax s0) 1 (unat sz);
          clsLogSoftmax = InplaceLogSoftmax input_cls_log_post_prob True;
          clsSoftmax =
            AssignExpOf (Resize (ev_clsSoftmax s0) (GetNumRows input_cls_log_post_prob) nT)
              clsLogSoftmax;
          s1 = \<lparr>ev_functionValues = SetValue (ev_functionValues s0) 0,
                ev_logSoftmax = logSoftmax,
                ev_softMax = softMax,
                ev_clsLogSoftmax = clsLogSoftmax,
                ev_clsSoftmax = clsSoftmax,
                ev_totalWords = totalWords,
                ev_sz = 0\<rparr>
      in case foldl (ClassBased_EvaluateThisNodeS_t layout lbls inputs input_weight) (Inr s1)
                [0..<GetNumCols lbls] of
           Inl e \<Rightarrow> Inl e
         | Inr s \<Rightarrow> Inr (s\<lparr>ev_functionValues := timesAssign (ev_functionValues s) (- 1)\<rparr>))"

text \<open>
  \<open>EvaluateThisNode\<close>. The constant \<open>CPUDEVICE\<close> is absent and is a parameter.
\<close>

definition labelNotOnCPU :: error where
  "labelNotOnCPU = LogicError ''ClassBasedCrossEntropyWithSoftmax: evaluatethisnode. the label matrix is not using CPU device. This will make computation slow, even though the label data is probably saved on GPU. Because of the external loop over time with explicit class id retrieved from the label matrix, the computation will be very slow if the label matrix is saved on GPU. However, this is only a constraint for label matrix and other matrices such as data are suggested to reside on GPU. ''"

definition ClassBased_EvaluateThisNode ::
  "int \<Rightarrow> ClassBasedCrossEntropyWithSoftmaxNode \<Rightarrow> Network
     \<Rightarrow> (ClassBasedCrossEntropyWithSoftmaxNode \<times> Network) result" where
  "ClassBased_EvaluateThisNode CPUDEVICE n net =
     (if GetDeviceId (FunctionValues (Inputs n net 0)) \<noteq> CPUDEVICE then
        Inl (labelNotOnCPU, (n, net))
      else
        (let put = (\<lambda>s. n\<lparr>FunctionValues := ev_functionValues s,
                            m_logSoftmax := ev_logSoftmax s,
                            m_softMax := ev_softMax s,
                            m_clsLogSoftmax := ev_clsLogSoftmax s,
                            m_clsSoftmax := ev_clsSoftmax s,
                            m_totalNbrWords := ev_totalWords s\<rparr>)
         in case ClassBased_EvaluateThisNodeS (m_pMBLayout n)
                   \<lparr>ev_functionValues = FunctionValues n,
                    ev_logSoftmax = m_logSoftmax n,
                    ev_softMax = m_softMax n,
                    ev_clsLogSoftmax = m_clsLogSoftmax n,
                    ev_clsSoftmax = m_clsSoftmax n,
                    ev_totalWords = m_totalNbrWords n,
                    ev_sz = 0\<rparr>
                   (FunctionValues (Inputs n net 0)) (FunctionValues (Inputs n net 1))
                   (FunctionValues (Inputs n net 2)) (FunctionValues (Inputs n net 3)) of
              Inl (e, s) \<Rightarrow> Inl (e, (put s, net))
            | Inr s \<Rightarrow>
                Inr ((put s)\<lparr>m_needRecomputeGradientToSoftmaxInput := True\<rparr>, net)))"

text \<open>
  \<open>ComputeSoftMaxPartial\<close>: the body of its loop over time, on the node and the offset
  \<open>sz\<close>. The view \<open>softMax\<close> shares the storage of \<open>m_softMax\<close>, so the update of
  the view is written back.
\<close>

definition ComputeSoftMaxPartial_t ::
  "Network \<Rightarrow> (ClassBasedCrossEntropyWithSoftmaxNode \<times> size_t) result \<Rightarrow> nat
     \<Rightarrow> (ClassBasedCrossEntropyWithSoftmaxNode \<times> size_t) result" where
  "ComputeSoftMaxPartial_t net r t =
     (case r of
        Inl e \<Rightarrow> Inl e
      | Inr (n, sz) \<Rightarrow>
          (let lbl_t = FrameSlice (FunctionValues (Inputs n net 0)) t;
               y_t = to_size_t (Elem lbl_t 0 0);
               lft_bnd = to_size_t (Elem lbl_t 2 0);
               rgt_bnd = to_size_t (Elem lbl_t 3 0);
               nbr_wrd = rgt_bnd - lft_bnd
           in
             if nbr_wrd = 0 then
               (if y_t = 0 then Inr (n, sz)
                else Inl (LogicError ''ClassbasedCrossEntropyWithSoftmax::ComputeSoftMaxPartial label provided but the size of its class is zero. Should never happen. Probably misuse of ClassbasedCrossEntropyWithSoftmax.'', (n, sz)))
             else
               (let softMax = ColumnSlice (m_softMax n) (unat sz) (unat nbr_wrd);
                    softMax1 = ComputeCEPartialToSoftmaxInputs softMax (GradientValues n)
                                 (unat (y_t - lft_bnd));
                    n1 = n\<lparr>m_softMax := setColumnSlice (m_softMax n) (unat sz) softMax1\<rparr>;
                    n2 = n1\<lparr>m_grdToSoftMaxInput :=
                            setColumnSlice (m_grdToSoftMaxInput n1) (unat sz)
                              (SetValueOf
                                 (ColumnSlice (m_grdToSoftMaxInput n1) (unat sz) (unat nbr_wrd))
                                 softMax1)\<rparr>
                in Inr (n2, sz + nbr_wrd))))"

definition ComputeSoftMaxPartial ::
  "ClassBasedCrossEntropyWithSoftmaxNode \<Rightarrow> Network
     \<Rightarrow> (error \<times> ClassBasedCrossEntropyWithSoftmaxNode) + ClassBasedCrossEntropyWithSoftmaxNode"
  where
  "ComputeSoftMaxPartial n net =
     (if m_needRecomputeGradientToSoftmaxInput n then
        (let n1 = n\<lparr>m_grdToSoftMaxInput :=
                       Resize (m_grdToSoftMaxInput n) 1 (unat (m_totalNbrWords n))\<rparr>;
             nT = GetNumCols (FunctionValues (Inputs n1 net 1))
         in case foldl (ComputeSoftMaxPartial_t net) (Inr (n1, 0)) [0..<nT] of
              Inl (e, (n2, sz)) \<Rightarrow> Inl (e, n2)
            | Inr (n2, sz) \<Rightarrow> Inr (n2\<lparr>m_needRecomputeGradientToSoftmaxInput := False\<rparr>))
      else Inr n)"



text \<open>
  The gradient of input \<open>i\<close> in the state that a call returns, and \<open>None\<close> when the
  call raises.
\<close>

definition gradientAfter ::
  "(('a ComputationNode_scheme \<times> Network) result) \<Rightarrow> nat \<Rightarrow> Matrix option" where
  "gradientAfter r i =
     (case r of Inl e \<Rightarrow> None | Inr (n, net) \<Rightarrow> Some (GradientValues (Inputs n net i)))"

subsection \<open>Notions of the specification\<close>

text \<open>
  Modelled from the spec: a column is invalid under the Sequence Mask when its
  (stream, time) cell carries no label. This is the test that
  \<open>MaskToZeroWhenLabelAndFeatureMissing\<close> makes for a column.
\<close>

definition columnMissing :: "MBLayout option \<Rightarrow> nat \<Rightarrow> bool" where
  "columnMissing layout t =
     (case layout of
        None \<Rightarrow> False
      | Some L \<Rightarrow> \<not> IsAllNone L
          \<and> Is_t L (t div GetNumParallelSequences L)
          \<and> Is_st L (t mod GetNumParallelSequences L) (t div GetNumParallelSequences L))"

text \<open>
  Modelled from the spec: \<open>logAddOverJ\<close>, the log-sum-exp of \<open>f(0), ..., f(L-1)\<close>, as
  \<open>LogAdd\<close> folded from the sentinel \<open>LZERO\<close> in the order of the source's loops.
\<close>

definition logAddOver :: "real \<Rightarrow> (real \<Rightarrow> real \<Rightarrow> real) \<Rightarrow> nat \<Rightarrow> (nat \<Rightarrow> real) \<Rightarrow> real" where
  "logAddOver LZERO LogAdd L f = foldl (\<lambda>acc j. LogAdd acc (f j)) LZERO [0..<L]"

text \<open>
  Modelled from the spec: the forward recursion of section 4.6, \<open>alpha[k,t]\<close> as a
  function of \<open>t\<close> and \<open>k\<close>, with \<open>firstLabel\<close> as the source finds it.
\<close>

fun alphaSpec ::
  "real \<Rightarrow> (real \<Rightarrow> real \<Rightarrow> real) \<Rightarrow> Matrix \<Rightarrow> Matrix \<Rightarrow> Matrix \<Rightarrow> nat \<Rightarrow> nat \<Rightarrow> real" where
  "alphaSpec LZERO LogAdd lbls pos_scores pair_scores 0 k =
     Elem pos_scores k 0
     + logAddOver LZERO LogAdd (GetNumRows lbls)
         (\<lambda>j. (if int j = findLabel lbls 0 [0..<GetNumRows lbls] then 0 else LZERO)
               + Elem pair_scores k j)"
| "alphaSpec LZERO LogAdd lbls pos_scores pair_scores (Suc t) k =
     Elem pos_scores k (Suc t)
     + logAddOver LZERO LogAdd (GetNumRows lbls)
         (\<lambda>j. alphaSpec LZERO LogAdd lbls pos_scores pair_scores t j + Elem pair_scores k j)"

text \<open>The value that one iteration of the loop over \<open>k\<close> of \<open>ForwardCompute\<close> writes.\<close>

definition fwdVal ::
  "real \<Rightarrow> (real \<Rightarrow> real \<Rightarrow> real) \<Rightarrow> Matrix \<Rightarrow> Matrix \<Rightarrow> int \<Rightarrow> nat \<Rightarrow> Matrix \<Rightarrow> nat \<Rightarrow> nat
     \<Rightarrow> real" where
  "fwdVal LZERO LogAdd pos_scores pair_scores firstLbl L alpha t k =
     Elem pos_scores k t
     + logAddOver LZERO LogAdd L
         (\<lambda>j. (if t > 0 then Elem alpha j (t - 1) else if int j = firstLbl then 0 else LZERO)
               + Elem pair_scores k j)"











text \<open>
  The label of column \<open>t\<close>, by the search of the source, and the columns whose label
  addresses an element of the tensor of transition scores.
\<close>

definition labelAt :: "Matrix \<Rightarrow> nat \<Rightarrow> int" where
  "labelAt lbls t = findLabel lbls t [0..<GetNumRows lbls]"

definition labelInRange :: "Matrix \<Rightarrow> Matrix \<Rightarrow> nat \<Rightarrow> bool" where
  "labelInRange lbls pair_scores t =
     (0 \<le> labelAt lbls t \<and> labelAt lbls t < int (GetNumRows pair_scores)
        \<and> labelAt lbls t < int (GetNumCols pair_scores))"

definition allLabelled :: "Matrix \<Rightarrow> Matrix \<Rightarrow> bool" where
  "allLabelled lbls pair_scores = list_all (labelInRange lbls pair_scores) [0..<GetNumCols lbls]"

text \<open>
  Modelled from the spec: the transition score of the true path, the negative
  log-likelihood of one sequence (true-path score minus the log partition function
  \<open>logAddOverK(alpha[k, T-1])\<close>, negated), and a one-hot label column.
\<close>

definition pathTransitionScore :: "Matrix \<Rightarrow> Matrix \<Rightarrow> real" where
  "pathTransitionScore lbls pair_scores =
     sum_list (map (\<lambda>t. Elem pair_scores (nat (labelAt lbls (t + 1))) (nat (labelAt lbls t)))
                 [0..<GetNumCols lbls - 1])"

definition seqNLL ::
  "real \<Rightarrow> (real \<Rightarrow> real \<Rightarrow> real) \<Rightarrow> Matrix \<Rightarrow> Matrix \<Rightarrow> Matrix \<Rightarrow> real" where
  "seqNLL LZERO LogAdd lbls pos_scores pair_scores =
     - ((InnerProductOfMatrices lbls pos_scores + pathTransitionScore lbls pair_scores)
        - logAddOver LZERO LogAdd (GetNumRows lbls)
            (\<lambda>k. alphaSpec LZERO LogAdd lbls pos_scores pair_scores (GetNumCols lbls - 1) k))"

definition oneHot :: "Matrix \<Rightarrow> nat \<Rightarrow> nat \<Rightarrow> bool" where
  "oneHot lbls y t =
     (y < GetNumRows lbls \<and> Elem lbls y t = 1
        \<and> list_all (\<lambda>i. i = y \<or> Elem lbls i t = 0) [0..<GetNumRows lbls])"

text \<open>Modelled from the spec: \<open>logAdd(a, b) = log(exp(a) + exp(b))\<close>.\<close>

definition LogAdd_spec :: "real \<Rightarrow> real \<Rightarrow> real" where
  "LogAdd_spec a b = ln (exp a + exp b)"


definition alphaElemOf ::
  "error + (Matrix \<times> Matrix \<times> Matrix \<times> Matrix \<times> int \<times> int) \<Rightarrow> nat \<Rightarrow> nat \<Rightarrow> real option" where
  "alphaElemOf r k t =
     (case r of Inl e \<Rightarrow> None | Inr (pp, a, b, fv, f, l) \<Rightarrow> Some (Elem a k t))"

definition outputOf ::
  "error + (Matrix \<times> Matrix \<times> Matrix \<times> Matrix \<times> int \<times> int) \<Rightarrow> real option" where
  "outputOf r =
     (case r of Inl e \<Rightarrow> None | Inr (pp, a, b, fv, f, l) \<Rightarrow> Some (Get00Element fv))"

text \<open>Modelled from the spec: \<open>logAddOverK(m[k,t])\<close>, over the labels \<open>k\<close> of column \<open>t\<close>.\<close>

definition logAddOverK :: "real \<Rightarrow> (real \<Rightarrow> real \<Rightarrow> real) \<Rightarrow> Matrix \<Rightarrow> nat \<Rightarrow> real" where
  "logAddOverK LZERO LogAdd m t = logAddOver LZERO LogAdd (GetNumRows m) (\<lambda>k. Elem m k t)"

subsection \<open>Concrete inputs\<close>

text \<open>A tensor from its rows, an input node and a network of input nodes.\<close>

definition matrixOfRows :: "nat \<Rightarrow> nat \<Rightarrow> real list list \<Rightarrow> Matrix" where
  "matrixOfRows r c rows =
     \<lparr>GetNumRows = r, GetNumCols = c, GetDeviceId = 0,
      Elem = \<lambda>i j. if i < length rows \<and> j < length (rows ! i) then rows ! i ! j else 0\<rparr>"

definition inputNode :: "string \<Rightarrow> Matrix \<Rightarrow> Matrix \<Rightarrow> ComputationNode" where
  "inputNode name v g =
     \<lparr>m_children = [], OperationName = name, FunctionValues = v, GradientValues = g,
      m_pMBLayout = None, m_outputChannels = 1, m_outputWidth = 1, m_outputHeight = 1\<rparr>"

definition criterionBase :: "nat list \<Rightarrow> string \<Rightarrow> real \<Rightarrow> MBLayout option \<Rightarrow> ComputationNode" where
  "criterionBase children name g layout =
     \<lparr>m_children = children, OperationName = name,
      FunctionValues = matrixOfRows 1 1 [[0]], GradientValues = matrixOfRows 1 1 [[g]],
      m_pMBLayout = layout, m_outputChannels = 1, m_outputWidth = 1, m_outputHeight = 1\<rparr>"

definition exNCE :: "NCEEvalMode \<Rightarrow> NoiseContrastiveEstimationNode" where
  "exNCE mode =
     ComputationNode.extend (criterionBase [0, 1, 2, 3] ''NCEBasedCrossEntropyWithSoftmax'' 1 None)
       (NoiseContrastiveEstimationNode.fields (matrixOfRows 0 0 []) (matrixOfRows 0 0 []) True mode)"

definition exNetNCE :: "real \<Rightarrow> Network" where
  "exNetNCE l = (\<lambda>a. inputNode ''InputValue'' (matrixOfRows 1 1 [[l]]) (matrixOfRows 1 1 [[0]]))"

definition exDummy :: DummyCriterionNode where
  "exDummy = criterionBase [0, 1, 2] ''DummyCriterion'' 1 None"

definition exNetDummy :: "nat \<Rightarrow> Network" where
  "exNetDummy c = (\<lambda>a.
     if a = 0 then inputNode ''InputValue'' (matrixOfRows 1 1 [[5]]) (matrixOfRows 1 1 [[0]])
     else if a = 1 then inputNode ''Plus'' (matrixOfRows 2 c [[1, 2, 3], [4, 5, 6]])
                          (matrixOfRows 2 c [[0, 0, 0], [0, 0, 0]])
     else inputNode ''Times'' (matrixOfRows 2 3 [[1, 1, 1], [1, 1, 1]])
            (matrixOfRows 2 3 [[0, 0, 0], [0, 0, 0]]))"

definition exCRF :: CRFNode where
  "exCRF =
     ComputationNode.extend (criterionBase [0, 1, 2] ''CRF'' 1 None)
       (CRFNode.fields (matrixOfRows 0 0 []) (matrixOfRows 0 0 []) (matrixOfRows 0 0 []) 0 0)"

definition exCEwS :: "MBLayout option \<Rightarrow> CrossEntropyWithSoftmaxNode" where
  "exCEwS layout =
     ComputationNode.extend (criterionBase [0, 1] ''CrossEntropyWithSoftmax'' 1 layout)
       (CrossEntropyWithSoftmaxNode.fields (matrixOfRows 1 1 [[0]]) (matrixOfRows 1 1 [[1]]))"

definition exNetCEwS :: "real \<Rightarrow> Network" where
  "exNetCEwS g = (\<lambda>a. inputNode ''InputValue'' (matrixOfRows 1 1 [[1]]) (matrixOfRows 1 1 [[g]]))"

definition exLayoutNoLabel :: MBLayout where
  "exLayoutNoLabel =
     \<lparr>GetNumParallelSequences = 1, GetNumTimeSteps = 1, noLabel = \<lambda>i j. True\<rparr>"

definition exLbls :: Matrix where
  "exLbls = matrixOfRows 2 2 [[0, 1], [1, 0]]"

definition exPos :: Matrix where
  "exPos = matrixOfRows 2 2 [[1, 2], [3, 4]]"

definition exPair :: Matrix where
  "exPair = matrixOfRows 2 2 [[10, 20], [30, 40]]"

text \<open>
  A class-based node on one hidden unit, a vocabulary of one word and one class; the
  labels \<open>lbl\<close> and the prior gradient \<open>g\<close> of every input vary.
\<close>

definition exCB :: "bool \<Rightarrow> ClassBasedCrossEntropyWithSoftmaxNode" where
  "exCB stale =
     ComputationNode.extend
       (criterionBase [0, 1, 2, 3] ''ClassBasedCrossEntropyWithSoftmax'' 1 None)
       (ClassBasedCrossEntropyWithSoftmaxNode.fields
          (matrixOfRows 1 1 [[0]]) (matrixOfRows 1 1 [[1]])
          (matrixOfRows 1 2 [[0, 0]]) (matrixOfRows 1 2 [[1, 1]])
          (matrixOfRows 1 1 [[2]]) stale 1 1)"

definition exNetCB :: "Matrix \<Rightarrow> real \<Rightarrow> Network" where
  "exNetCB lbl g = (\<lambda>a.
     if a = 0 then inputNode ''InputValue'' lbl (matrixOfRows 4 2 [])
     else if a = 1 then inputNode ''Hidden'' (matrixOfRows 1 2 [[3, 3]]) (matrixOfRows 1 2 [[g, g]])
     else if a = 2 then inputNode ''LearnableParameter'' (matrixOfRows 1 1 [[5]])
                          (matrixOfRows 1 1 [[g]])
     else inputNode ''Times'' (matrixOfRows 1 2 [[0, 0]]) (matrixOfRows 1 2 [[g, g]]))"

text \<open>Two label columns: the first without a label, the second with word 0 of class 0.\<close>

definition exLblCB :: Matrix where
  "exLblCB = matrixOfRows 4 2 [[0, 0], [0, 0], [0, 0], [0, 1]]"



text \<open>A CRF network: one-hot labels with path 1, 0, position scores, transition scores.\<close>

definition exNetCRF :: Network where
  "exNetCRF = (\<lambda>a.
     if a = 0 then inputNode ''InputValue'' exLbls (matrixOfRows 2 2 [])
     else if a = 1 then inputNode ''Times'' exPos (matrixOfRows 2 2 [])
     else inputNode ''LearnableParameter'' exPair (matrixOfRows 2 2 []))"

text \<open>
  A stand-in for the absent \<open>RCRFBackwardCompute\<close>, which leaves \<open>beta\<close> and
  \<open>functionValues\<close> as they are; \<open>alpha\<close> and the output do not depend on it.
\<close>

definition exBackward :: RCRFBackward where
  "exBackward alpha beta functionValues lbls pos_scores pair_scores shift =
     (beta, functionValues)"

section \<open>Properties\<close>

subsection \<open>Tensors, inputs and the mask\<close>

lemma Inputs_setInputGradient_same:
  "GradientValues (Inputs n (setInputGradient n net i g) i) = g"
  by (simp add: Inputs_def setInputGradient_def)

lemma FunctionValues_setInputGradient:
  "FunctionValues (Inputs n (setInputGradient n' net i g) k) = FunctionValues (Inputs n net k)"
  by (simp add: Inputs_def setInputGradient_def)

lemma Mask_t_snd:
  "snd (MaskToZeroWhenLabelAndFeatureMissing_t layout m t) = columnMissing layout t"
  by (auto simp: MaskToZeroWhenLabelAndFeatureMissing_t_def columnMissing_def Let_def
      split: option.splits)

lemma Mask_t_fst:
  "fst (MaskToZeroWhenLabelAndFeatureMissing_t layout m t)
     = (if columnMissing layout t then zeroColumn m t else m)"
  by (auto simp: MaskToZeroWhenLabelAndFeatureMissing_t_def columnMissing_def Let_def
      split: option.splits)

lemma Mask_Elem:
  "Elem (MaskToZeroWhenLabelAndFeatureMissing layout m) i t
     = (if t < GetNumCols m \<and> columnMissing layout t then 0 else Elem m i t)"
  by (simp add: MaskToZeroWhenLabelAndFeatureMissing_def Mask_t_snd)

lemma matrixOfRows_simps:
  "GetNumRows (matrixOfRows r c rows) = r"
  "GetNumCols (matrixOfRows r c rows) = c"
  "GetDeviceId (matrixOfRows r c rows) = 0"
  "Elem (matrixOfRows r c rows) i j
     = (if i < length rows \<and> j < length (rows ! i) then rows ! i ! j else 0)"
  by (simp_all add: matrixOfRows_def)

lemma columnMissing_exLayout: "columnMissing (Some exLayoutNoLabel) 0"
  by (simp add: columnMissing_def exLayoutNoLabel_def IsAllNone_def Is_t_def Is_st_def)

subsection \<open>The forward recursion of the CRF node\<close>

lemma foldl_cong_set:
  "(\<And>a x. x \<in> set xs \<Longrightarrow> f a x = g a x) \<Longrightarrow> foldl f a xs = foldl g a xs"
  by (induction xs arbitrary: a) auto

lemma logAddOver_cong:
  "(\<And>j. j < L \<Longrightarrow> f j = g j) \<Longrightarrow> logAddOver LZERO LogAdd L f = logAddOver LZERO LogAdd L g"
  unfolding logAddOver_def by (rule foldl_cong_set) auto

lemma ForwardCompute_j_fun:
  "ForwardCompute_j LZERO LogAdd alpha pair firstLbl t k =
     (\<lambda>fTmp j. LogAdd fTmp
        ((if t > 0 then Elem alpha j (t - 1) else if int j = firstLbl then 0 else LZERO)
          + Elem pair k j))"
  by (intro ext) (simp add: ForwardCompute_j_def Let_def)

lemma ForwardCompute_k_Elem:
  "Elem (ForwardCompute_k LZERO LogAdd pos pair firstLbl L t alpha k) k' t' =
     (if k' = k \<and> t' = t then fwdVal LZERO LogAdd pos pair firstLbl L alpha t k
      else Elem alpha k' t')"
  by (simp add: ForwardCompute_k_def ForwardCompute_j_fun fwdVal_def logAddOver_def
      setElem_def Let_def)

lemma fwdVal_cong:
  assumes "\<And>j. j < L \<Longrightarrow> 0 < t \<Longrightarrow> Elem a j (t - 1) = Elem b j (t - 1)"
  shows "fwdVal LZERO LogAdd pos pair firstLbl L a t k
       = fwdVal LZERO LogAdd pos pair firstLbl L b t k"
proof -
  have "logAddOver LZERO LogAdd L
          (\<lambda>j. (if t > 0 then Elem a j (t - 1) else if int j = firstLbl then 0 else LZERO)
                + Elem pair k j)
      = logAddOver LZERO LogAdd L
          (\<lambda>j. (if t > 0 then Elem b j (t - 1) else if int j = firstLbl then 0 else LZERO)
                + Elem pair k j)"
    by (rule logAddOver_cong) (use assms in auto)
  then show ?thesis by (simp add: fwdVal_def)
qed

lemma ForwardCompute_k_loop_Elem:
  "Elem (foldl (ForwardCompute_k LZERO LogAdd pos pair firstLbl L t) alpha ks) k' t' =
     (if k' \<in> set ks \<and> t' = t then fwdVal LZERO LogAdd pos pair firstLbl L alpha t k'
      else Elem alpha k' t')"
proof (induction ks arbitrary: k' t' rule: rev_induct)
  case Nil
  then show ?case by simp
next
  case (snoc k ks)
  let ?A = "foldl (ForwardCompute_k LZERO LogAdd pos pair firstLbl L t) alpha ks"
  have "fwdVal LZERO LogAdd pos pair firstLbl L ?A t k
      = fwdVal LZERO LogAdd pos pair firstLbl L alpha t k"
    by (rule fwdVal_cong) (auto simp: snoc.IH)
  then show ?case
    by (simp add: ForwardCompute_k_Elem snoc.IH)
qed

lemma ForwardCompute_t_Elem:
  "Elem (ForwardCompute_t LZERO LogAdd pos pair firstLbl L alpha t) k' t' =
     (if k' < L \<and> t' = t then fwdVal LZERO LogAdd pos pair firstLbl L alpha t k'
      else Elem alpha k' t')"
  by (simp add: ForwardCompute_t_def ForwardCompute_k_loop_Elem)

lemma ForwardCompute_loop_Elem:
  "Elem (foldl (ForwardCompute_t LZERO LogAdd pos pair
                  (findLabel lbls 0 [0..<GetNumRows lbls]) (GetNumRows lbls)) alpha [0..<T])
        k t =
     (if k < GetNumRows lbls \<and> t < T then alphaSpec LZERO LogAdd lbls pos pair t k
      else Elem alpha k t)"
proof (induction T arbitrary: k t)
  case 0
  then show ?case by simp
next
  case (Suc T)
  note IH = Suc.IH
  let ?A = "foldl (ForwardCompute_t LZERO LogAdd pos pair
                     (findLabel lbls 0 [0..<GetNumRows lbls]) (GetNumRows lbls)) alpha [0..<T]"
  have v: "fwdVal LZERO LogAdd pos pair (findLabel lbls 0 [0..<GetNumRows lbls])
             (GetNumRows lbls) ?A T k
        = alphaSpec LZERO LogAdd lbls pos pair T k" for k
  proof (cases T)
    case 0
    then show ?thesis by (simp add: fwdVal_def)
  next
    case T: (Suc T')
    have "logAddOver LZERO LogAdd (GetNumRows lbls) (\<lambda>j. Elem ?A j T' + Elem pair k j)
        = logAddOver LZERO LogAdd (GetNumRows lbls)
            (\<lambda>j. alphaSpec LZERO LogAdd lbls pos pair T' j + Elem pair k j)"
    proof (rule logAddOver_cong)
      fix j assume "j < GetNumRows lbls"
      then show "Elem ?A j T' + Elem pair k j
          = alphaSpec LZERO LogAdd lbls pos pair T' j + Elem pair k j"
        using IH[of j T'] T by simp
    qed
    then show ?thesis by (simp add: fwdVal_def T)
  qed
  have "Elem (ForwardCompute_t LZERO LogAdd pos pair (findLabel lbls 0 [0..<GetNumRows lbls])
                (GetNumRows lbls) ?A T) k t
      = (if k < GetNumRows lbls \<and> t < Suc T then alphaSpec LZERO LogAdd lbls pos pair t k
         else Elem alpha k t)"
  proof -
    have "Elem ?A k t
        = (if k < GetNumRows lbls \<and> t < T then alphaSpec LZERO LogAdd lbls pos pair t k
           else Elem alpha k t)"
      by (rule IH)
    then show ?thesis
      by (simp only: ForwardCompute_t_Elem v less_Suc_eq split: if_splits) auto
  qed
  then show ?case by simp
qed

lemma ForwardCompute_Elem:
  "k < GetNumRows lbls \<Longrightarrow> t < GetNumCols lbls \<Longrightarrow>
   Elem (ForwardCompute LZERO LogAdd alpha lbls pos pair) k t
     = alphaSpec LZERO LogAdd lbls pos pair t k"
  by (simp add: ForwardCompute_def Let_def ForwardCompute_loop_Elem)

lemma ForwardCompute_dims:
  "GetNumRows (ForwardCompute LZERO LogAdd alpha lbls pos pair) = GetNumRows lbls"
  "GetNumCols (ForwardCompute LZERO LogAdd alpha lbls pos pair) = GetNumCols lbls"
proof -
  have k: "GetNumRows (ForwardCompute_k LZERO LogAdd pos pair f L t a k) = GetNumRows a
         \<and> GetNumCols (ForwardCompute_k LZERO LogAdd pos pair f L t a k) = GetNumCols a"
    for f L t a k
    by (simp add: ForwardCompute_k_def setElem_def Let_def)
  have kl: "GetNumRows (foldl (ForwardCompute_k LZERO LogAdd pos pair f L t) a ks) = GetNumRows a
         \<and> GetNumCols (foldl (ForwardCompute_k LZERO LogAdd pos pair f L t) a ks) = GetNumCols a"
    for f L t a ks
    by (induction ks arbitrary: a) (simp_all add: k)
  have tl: "GetNumRows (foldl (ForwardCompute_t LZERO LogAdd pos pair f L) a ts) = GetNumRows a
         \<and> GetNumCols (foldl (ForwardCompute_t LZERO LogAdd pos pair f L) a ts) = GetNumCols a"
    for f L a ts
    by (induction ts arbitrary: a) (simp_all add: ForwardCompute_t_def kl)
  show "GetNumRows (ForwardCompute LZERO LogAdd alpha lbls pos pair) = GetNumRows lbls"
    and "GetNumCols (ForwardCompute LZERO LogAdd alpha lbls pos pair) = GetNumCols lbls"
    by (simp_all add: ForwardCompute_def Let_def tl Resize_def)
qed

lemma findLabel_onehot_aux:
  "y \<in> set ks \<Longrightarrow> Elem lbls y t \<noteq> 0 \<Longrightarrow> (\<forall>i\<in>set ks. i \<noteq> y \<longrightarrow> Elem lbls i t = 0)
    \<Longrightarrow> findLabel lbls t ks = int y"
  by (induction ks) auto

lemma findLabel_onehot:
  "y < L \<Longrightarrow> Elem lbls y t \<noteq> 0 \<Longrightarrow> (\<forall>i<L. i \<noteq> y \<longrightarrow> Elem lbls i t = 0)
    \<Longrightarrow> findLabel lbls t [0..<L] = int y"
  by (rule findLabel_onehot_aux) auto

text \<open>
  Claim C2. For every position \<open>t < T\<close> and label \<open>k < L\<close>, with the first label column
  one-hot at \<open>y\<close>: \<open>alpha[k,t] = posScores[k,t] + logAddOverJ (f(j) + pairScores[k,j])\<close>,
  where \<open>f(j) = alpha[j,t-1]\<close> when \<open>t > 0\<close>, and at \<open>t = 0\<close> \<open>f(j)\<close> is 0 for \<open>j = y\<close>
  and the sentinel \<open>LZERO\<close> otherwise. \<open>LogAdd\<close> and \<open>LZERO\<close> are arbitrary.
\<close>

theorem C2_forward_recursion:
  assumes "k < GetNumRows lbls" and "t < GetNumCols lbls"
    and "y < GetNumRows lbls" and "Elem lbls y 0 \<noteq> 0"
    and "\<forall>i<GetNumRows lbls. i \<noteq> y \<longrightarrow> Elem lbls i 0 = 0"
  shows "Elem (ForwardCompute LZERO LogAdd alpha lbls pos_scores pair_scores) k t =
     Elem pos_scores k t
     + logAddOver LZERO LogAdd (GetNumRows lbls)
         (\<lambda>j. (if t > 0
                then Elem (ForwardCompute LZERO LogAdd alpha lbls pos_scores pair_scores) j (t - 1)
                else if j = y then 0 else LZERO)
               + Elem pair_scores k j)"
proof (cases t)
  case 0
  have "findLabel lbls 0 [0..<GetNumRows lbls] = int y"
    using assms by (intro findLabel_onehot) auto
  then show ?thesis using assms 0
    by (simp add: ForwardCompute_Elem)
next
  case (Suc t')
  have "logAddOver LZERO LogAdd (GetNumRows lbls)
          (\<lambda>j. alphaSpec LZERO LogAdd lbls pos_scores pair_scores t' j + Elem pair_scores k j)
      = logAddOver LZERO LogAdd (GetNumRows lbls)
          (\<lambda>j. Elem (ForwardCompute LZERO LogAdd alpha lbls pos_scores pair_scores) j t'
                 + Elem pair_scores k j)"
    using assms Suc by (intro logAddOver_cong) (simp add: ForwardCompute_Elem)
  then show ?thesis using assms Suc
    by (simp add: ForwardCompute_Elem)
qed

lemma upt_0_2: "[0..<2] = [0, Suc 0]"
  by (simp add: numeral_2_eq_2)

theorem C2_forward_recursion_witness:
  "(1::nat) < GetNumRows exLbls \<and> (1::nat) < GetNumCols exLbls
   \<and> Elem exLbls 1 0 \<noteq> 0 \<and> Elem exLbls 0 0 = 0
   \<and> Elem (ForwardCompute (- 1000) max (matrixOfRows 0 0 []) exLbls exPos exPair) 0 0 = 21
   \<and> Elem (ForwardCompute (- 1000) max (matrixOfRows 0 0 []) exLbls exPos exPair) 1 0 = 43
   \<and> Elem (ForwardCompute (- 1000) max (matrixOfRows 0 0 []) exLbls exPos exPair) 1 1 = 87"
proof -
  have h0: "(0::nat) < GetNumRows exLbls" "(0::nat) < GetNumCols exLbls"
    and h1: "(1::nat) < GetNumRows exLbls" "(1::nat) < GetNumCols exLbls"
    and h2: "Elem exLbls 1 0 \<noteq> 0"
    and h3: "\<forall>i<GetNumRows exLbls. i \<noteq> 1 \<longrightarrow> Elem exLbls i 0 = 0"
    by (auto simp: exLbls_def matrixOfRows_simps less_Suc_eq numeral_2_eq_2)
  note r = C2_forward_recursion[where lbls = exLbls and y = 1 and LZERO = "- 1000"
      and LogAdd = max and alpha = "matrixOfRows 0 0 []" and pos_scores = exPos
      and pair_scores = exPair, OF _ _ h1(1) h2 h3]
  have a00: "Elem (ForwardCompute (- 1000) max (matrixOfRows 0 0 []) exLbls exPos exPair) 0 0 = 21"
    using r[OF h0(1) h0(2)]
    by (simp add: exLbls_def exPos_def exPair_def matrixOfRows_simps logAddOver_def upt_0_2)
  have a10: "Elem (ForwardCompute (- 1000) max (matrixOfRows 0 0 []) exLbls exPos exPair) 1 0 = 43"
    using r[OF h1(1) h0(2)]
    by (simp add: exLbls_def exPos_def exPair_def matrixOfRows_simps logAddOver_def upt_0_2)
  have a11: "Elem (ForwardCompute (- 1000) max (matrixOfRows 0 0 []) exLbls exPos exPair) 1 1 = 87"
    using r[OF h1(1) h1(2)] a00 a10
    by (simp add: exLbls_def exPos_def exPair_def matrixOfRows_simps logAddOver_def upt_0_2)
  show ?thesis using h1 h2 a00 a10 a11
    by (simp add: exLbls_def matrixOfRows_simps)
qed

subsection \<open>Gradients of the cross-entropy with soft-max\<close>

text \<open>
  Claim C5. For CrossEntropyWithSoftmax with upstream gradient \<open>g\<close>, the gradient request
  for input 0 (the label) adds \<open>-g\<close> times the cached log soft-max to that input's
  gradient, in every column and with no mask; the request for input 1 (the logits) adds
  \<open>g * (softmax - label)\<close> and then zeroes the columns that the Sequence Mask marks
  invalid.
\<close>

theorem C5_cross_entropy_softmax_gradient:
  "(\<exists>G'. gradientAfter (CrossEntropyWithSoftmax_ComputeInputPartial 0 n net) 0 = Some G'
       \<and> (\<forall>i j. Elem G' i j = Elem (GradientValues (Inputs n net 0)) i j
              + (- Get00Element (GradientValues n)) * Elem (m_logSoftmaxOfRight n) i j))
   \<and> (\<exists>G'. gradientAfter (CrossEntropyWithSoftmax_ComputeInputPartial 1 n net) 1 = Some G'
       \<and> (\<forall>i j. Elem G' i j =
             (if j < GetNumCols (GradientValues (Inputs n net 1))
                 \<and> columnMissing (m_pMBLayout n) j
              then 0
              else Elem (GradientValues (Inputs n net 1)) i j
                + Get00Element (GradientValues n)
                  * (Elem (m_softmaxOfRight n) i j
                     - Elem (FunctionValues (Inputs n net 0)) i j))))"
  by (simp add: gradientAfter_def CrossEntropyWithSoftmax_ComputeInputPartial_def Let_def
      CrossEntropyWithSoftmax_ComputeInputPartialLeft_def
      CrossEntropyWithSoftmax_ComputeInputPartialRight_def
      ScaleAndAdd_def AddScaledDifference_def Mask_Elem
      Inputs_setInputGradient_same FunctionValues_setInputGradient)

theorem C5_cross_entropy_softmax_gradient_witness:
  "(\<exists>G'. gradientAfter
            (CrossEntropyWithSoftmax_ComputeInputPartial 0 (exCEwS (Some exLayoutNoLabel))
               (exNetCEwS 7)) 0 = Some G'
        \<and> Elem G' 0 0 = 7)
   \<and> (\<exists>G'. gradientAfter
            (CrossEntropyWithSoftmax_ComputeInputPartial 1 (exCEwS (Some exLayoutNoLabel))
               (exNetCEwS 7)) 1 = Some G'
        \<and> Elem G' 0 0 = 0)
   \<and> (\<exists>G'. gradientAfter
            (CrossEntropyWithSoftmax_ComputeInputPartial 1 (exCEwS None) (exNetCEwS 7)) 1 = Some G'
        \<and> Elem G' 0 0 = 7)"
  using C5_cross_entropy_softmax_gradient[of "exCEwS (Some exLayoutNoLabel)" "exNetCEwS 7"]
    C5_cross_entropy_softmax_gradient[of "exCEwS None" "exNetCEwS 7"]
    columnMissing_exLayout
  by (auto simp: exCEwS_def exNetCEwS_def criterionBase_def inputNode_def Inputs_def
      matrixOfRows_simps Get00Element_def columnMissing_def
      ComputationNode.defs CrossEntropyWithSoftmaxNode.defs)

subsection \<open>Gradient requests for an input that has no derivative\<close>

text \<open>
  Claim C6. A gradient request for an input that has no derivative raises an error and
  modifies no gradient tensor: input 0 of the NCE node (a logic error outside training
  mode, an invalid-argument error in it), inputs 0 and 1 of DummyCriterion, and input 0
  of the CRF node. The network, which holds the gradients of all the inputs, and the
  node's own gradient are as before the call.
\<close>

theorem C6_invalid_gradient_target:
  "(\<exists>e n'. NCE_ComputeInputPartial assignNCEDerivative 0 nce net = Inl (e, (n', net))
        \<and> GradientValues n' = GradientValues nce
        \<and> e = (if m_evalMode nce \<noteq> NCEEvalMode_None
                 then LogicError ''ComputeInputPartial should only be called in training mode''
                 else InvalidArgument ''ComputeInput partial should not be called for label''))
   \<and> (\<exists>msg. DummyCriterion_ComputeInputPartial 0 dummy net = Inl (LogicError msg, (dummy, net)))
   \<and> (\<exists>msg. DummyCriterion_ComputeInputPartial 1 dummy net = Inl (LogicError msg, (dummy, net)))
   \<and> (\<exists>msg. CRF_ComputeInputPartial ndebug rcrfTransGrdCompute nS 0 crf net
          = Inl (InvalidArgument msg, (crf, net)))"
  by (simp add: NCE_ComputeInputPartial_def DummyCriterion_ComputeInputPartial_def
      CRF_ComputeInputPartial_def Let_def)

theorem C6_invalid_gradient_target_witness:
  "(\<exists>e n'. NCE_ComputeInputPartial (\<lambda>g p a b c i. g) 0 (exNCE NCEEvalMode_None) (exNetNCE 1)
          = Inl (e, (n', exNetNCE 1))
        \<and> GradientValues n' = GradientValues (exNCE NCEEvalMode_None)
        \<and> e = InvalidArgument ''ComputeInput partial should not be called for label'')
   \<and> (\<exists>msg. DummyCriterion_ComputeInputPartial 0 exDummy (exNetDummy 3)
          = Inl (LogicError msg, (exDummy, exNetDummy 3)))
   \<and> (\<exists>msg. DummyCriterion_ComputeInputPartial 1 exDummy (exNetDummy 3)
          = Inl (LogicError msg, (exDummy, exNetDummy 3)))
   \<and> (\<exists>msg. CRF_ComputeInputPartial True (\<lambda>l a b p g s h. g) 1 0 exCRF (exNetDummy 3)
          = Inl (InvalidArgument msg, (exCRF, exNetDummy 3)))"
  using C6_invalid_gradient_target[of "\<lambda>g p a b c i. g" "exNCE NCEEvalMode_None" "exNetNCE 1"
      exDummy True "\<lambda>l a b p g s h. g" 1 exCRF]
    C6_invalid_gradient_target[of "\<lambda>g p a b c i. g" "exNCE NCEEvalMode_None" "exNetDummy 3"
      exDummy True "\<lambda>l a b p g s h. g" 1 exCRF]
  by (simp add: exNCE_def ComputationNode.defs NoiseContrastiveEstimationNode.defs)

subsection \<open>The evaluation branch of the NCE node\<close>

lemma countSigns_eq:
  "countSigns lbl is (p, q) =
     (p + int (length (filter (\<lambda>i. Elem lbl 0 i > 0) is)),
      q + int (length (filter (\<lambda>i. Elem lbl 0 i < 0) is)))"
  by (induction "is" arbitrary: p q) auto

lemma filter_pos_iff: "0 < int (length (filter P xs)) \<longleftrightarrow> (\<exists>x\<in>set xs. P x)"
  by (induction xs) auto

lemma NCE_branch_eq:
  "NCE_EvaluateThisNode_branch ndebug n net =
     (let lbl = FunctionValues (Inputs n net 0);
          pos = (GetNumRows lbl = 1 \<and> (\<exists>i<GetNumCols lbl. Elem lbl 0 i > 0));
          neg = (GetNumRows lbl = 1 \<and> (\<exists>i<GetNumCols lbl. Elem lbl 0 i < 0))
      in if \<not> ndebug \<and> pos \<and> neg then Inl (AssertionFailed ''positive * negative == 0'')
         else if m_evalMode n = NCEEvalMode_Softmax \<or> pos then Inr SoftmaxBranch
         else if m_evalMode n = NCEEvalMode_Unnormalized \<or> neg then Inr UnnormalizedBranch
         else Inr NCEBranch)"
proof -
  define lbl where "lbl = FunctionValues (Inputs n net 0)"
  define p where "p = int (length (filter (\<lambda>i. Elem lbl 0 i > 0) [0..<GetNumCols lbl]))"
  define q where "q = int (length (filter (\<lambda>i. Elem lbl 0 i < 0) [0..<GetNumCols lbl]))"
  have p: "0 < p \<longleftrightarrow> (\<exists>i<GetNumCols lbl. Elem lbl 0 i > 0)"
    unfolding p_def
    using filter_pos_iff[of "\<lambda>i. Elem lbl 0 i > 0" "[0..<GetNumCols lbl]"] by auto
  have q: "0 < q \<longleftrightarrow> (\<exists>i<GetNumCols lbl. Elem lbl 0 i < 0)"
    unfolding q_def
    using filter_pos_iff[of "\<lambda>i. Elem lbl 0 i < 0" "[0..<GetNumCols lbl]"] by auto
  have nonneg: "0 \<le> p" "0 \<le> q" by (simp_all add: p_def q_def)
  have pq: "p * q \<noteq> 0 \<longleftrightarrow> 0 < p \<and> 0 < q"
    using nonneg by auto
  have cs: "countSigns lbl [0..<GetNumCols lbl] (0, 0) = (p, q)"
    by (simp add: countSigns_eq p_def q_def)
  show ?thesis
  proof (cases "GetNumRows lbl = 1")
    case True
    then show ?thesis
      unfolding NCE_EvaluateThisNode_branch_def Let_def lbl_def[symmetric] cs
      by (simp only: True if_True prod.case pq p q simp_thms)
  next
    case False
    then show ?thesis
      unfolding NCE_EvaluateThisNode_branch_def Let_def lbl_def[symmetric]
      by simp
  qed
qed

text \<open>
  Claim C8, as amended. With a one-row label tensor: if some entry is positive and none
  is negative, the soft-max branch is taken whatever the stored mode; if some entry is
  negative and none is positive, the unnormalized branch is taken unless the stored mode
  is Softmax, which keeps the soft-max branch. With more or fewer rows, or with no
  nonzero entry, the stored mode selects the branch, and the NCE objective is the one
  for a mode that is neither Softmax nor Unnormalized.
\<close>

theorem C8_nce_branch:
  "(GetNumRows (FunctionValues (Inputs n net 0)) = 1
      \<and> (\<exists>i<GetNumCols (FunctionValues (Inputs n net 0)).
            Elem (FunctionValues (Inputs n net 0)) 0 i > 0)
      \<and> (\<forall>i<GetNumCols (FunctionValues (Inputs n net 0)).
            \<not> Elem (FunctionValues (Inputs n net 0)) 0 i < 0)
     \<longrightarrow> NCE_EvaluateThisNode_branch ndebug n net = Inr SoftmaxBranch
       \<and> NCE_EvaluateThisNode ndebug evalSoftmax evalUnnormalized evalNCE n net
          = Inr ((evalSoftmax n net)\<lparr>m_needRecomputeGradientToSoftmaxInput_NCE := True\<rparr>, net))
   \<and> (GetNumRows (FunctionValues (Inputs n net 0)) = 1
      \<and> (\<exists>i<GetNumCols (FunctionValues (Inputs n net 0)).
            Elem (FunctionValues (Inputs n net 0)) 0 i < 0)
      \<and> (\<forall>i<GetNumCols (FunctionValues (Inputs n net 0)).
            \<not> Elem (FunctionValues (Inputs n net 0)) 0 i > 0)
     \<longrightarrow> NCE_EvaluateThisNode_branch ndebug n net
          = Inr (if m_evalMode n = NCEEvalMode_Softmax then SoftmaxBranch
                 else UnnormalizedBranch)
       \<and> NCE_EvaluateThisNode ndebug evalSoftmax evalUnnormalized evalNCE n net
          = Inr ((if m_evalMode n = NCEEvalMode_Softmax then evalSoftmax n net
                  else evalUnnormalized n net)
                  \<lparr>m_needRecomputeGradientToSoftmaxInput_NCE := True\<rparr>, net))
   \<and> (GetNumRows (FunctionValues (Inputs n net 0)) \<noteq> 1
      \<or> (\<forall>i<GetNumCols (FunctionValues (Inputs n net 0)).
            Elem (FunctionValues (Inputs n net 0)) 0 i = 0)
     \<longrightarrow> NCE_EvaluateThisNode_branch ndebug n net
          = Inr (if m_evalMode n = NCEEvalMode_Softmax then SoftmaxBranch
                 else if m_evalMode n = NCEEvalMode_Unnormalized then UnnormalizedBranch
                 else NCEBranch)
       \<and> NCE_EvaluateThisNode ndebug evalSoftmax evalUnnormalized evalNCE n net
          = Inr ((if m_evalMode n = NCEEvalMode_Softmax then evalSoftmax n net
                  else if m_evalMode n = NCEEvalMode_Unnormalized then evalUnnormalized n net
                  else evalNCE n net)
                  \<lparr>m_needRecomputeGradientToSoftmaxInput_NCE := True\<rparr>, net))"
  unfolding NCE_EvaluateThisNode_def NCE_branch_eq Let_def
  by (intro conjI impI) auto

lemma exNCE_simps:
  "m_evalMode (exNCE mode) = mode"
  "m_children (exNCE mode) = [0, 1, 2, 3]"
  by (simp_all add: exNCE_def criterionBase_def ComputationNode.defs
      NoiseContrastiveEstimationNode.defs)

lemma exNetNCE_label:
  "GetNumRows (FunctionValues (Inputs (exNCE mode) (exNetNCE l) 0)) = 1"
  "GetNumCols (FunctionValues (Inputs (exNCE mode) (exNetNCE l) 0)) = 1"
  "Elem (FunctionValues (Inputs (exNCE mode) (exNetNCE l) 0)) 0 0 = l"
  by (simp_all add: Inputs_def exNetNCE_def inputNode_def matrixOfRows_simps)

theorem C8_nce_branch_witness:
  "NCE_EvaluateThisNode_branch True (exNCE NCEEvalMode_Unnormalized) (exNetNCE 1)
     = Inr SoftmaxBranch
   \<and> NCE_EvaluateThisNode_branch True (exNCE NCEEvalMode_None) (exNetNCE (- 1))
     = Inr UnnormalizedBranch
   \<and> NCE_EvaluateThisNode_branch True (exNCE NCEEvalMode_None) (exNetNCE 0)
     = Inr NCEBranch"
  using C8_nce_branch[of "exNCE NCEEvalMode_Unnormalized" "exNetNCE 1" True "\<lambda>n net. n"
      "\<lambda>n net. n" "\<lambda>n net. n"]
    C8_nce_branch[of "exNCE NCEEvalMode_None" "exNetNCE (- 1)" True "\<lambda>n net. n"
      "\<lambda>n net. n" "\<lambda>n net. n"]
    C8_nce_branch[of "exNCE NCEEvalMode_None" "exNetNCE 0" True "\<lambda>n net. n"
      "\<lambda>n net. n" "\<lambda>n net. n"]
  by (simp add: exNCE_simps exNetNCE_label NCEEvalMode_None_def NCEEvalMode_Softmax_def
      NCEEvalMode_Unnormalized_def)

text \<open>
  The claim as stated fails: with the stored mode Softmax and the one-row label \<open>-1\<close>
  (an entry negative, none positive), the soft-max branch is taken, not the unnormalized
  one.
\<close>

theorem C8_nce_branch_counterexample:
  "GetNumRows (FunctionValues (Inputs (exNCE NCEEvalMode_Softmax) (exNetNCE (- 1)) 0)) = 1
   \<and> Elem (FunctionValues (Inputs (exNCE NCEEvalMode_Softmax) (exNetNCE (- 1)) 0)) 0 0 < 0
   \<and> NCE_EvaluateThisNode_branch True (exNCE NCEEvalMode_Softmax) (exNetNCE (- 1))
       = Inr SoftmaxBranch
   \<and> NCE_EvaluateThisNode_branch True (exNCE NCEEvalMode_Softmax) (exNetNCE (- 1))
       \<noteq> Inr UnnormalizedBranch"
  by (simp add: NCE_branch_eq exNCE_simps exNetNCE_label Let_def)

subsection \<open>Validation of DummyCriterion\<close>

text \<open>
  Claim C10, as amended. \<open>Validate\<close> tests the operation name of input 0 twice and that
  of input 1 never: once \<open>Base::Validate\<close> has returned, with three inputs, input 0 an
  \<open>InputValue\<close> with one row, no input without elements, and the row counts of inputs 1
  and 2 equal, it succeeds whatever node is attached as input 1. It leaves the value of
  input 1 with its rows and with the column count of input 2, resizing it when the
  column counts differ, and changes no other input.
\<close>

theorem C10_dummy_validate:
  assumes "baseValidate n0 net0 = Inr (n, net)"
    and "length (m_children n) = 3"
    and "OperationName (Inputs n net 0) = ''InputValue''"
    and "GetNumRows (FunctionValues (Inputs n net 0)) = 1"
    and "\<not> HasNoElements (FunctionValues (Inputs n net 0))"
    and "\<not> HasNoElements (FunctionValues (Inputs n net 1))"
    and "\<not> HasNoElements (FunctionValues (Inputs n net 2))"
    and "GetNumRows (FunctionValues (Inputs n net 1))
           = GetNumRows (FunctionValues (Inputs n net 2))"
  shows "\<exists>n' net'.
       DummyCriterion_Validate baseValidate inferImageDimsFromInput n0 net0 = Inr (n', net')
     \<and> GetNumRows (FunctionValues (Inputs n net' 1)) = GetNumRows (FunctionValues (Inputs n net 1))
     \<and> GetNumCols (FunctionValues (Inputs n net' 1)) = GetNumCols (FunctionValues (Inputs n net 2))
     \<and> Elem (FunctionValues (Inputs n net' 1)) = Elem (FunctionValues (Inputs n net 1))
     \<and> (\<forall>a. a \<noteq> m_children n ! 1 \<longrightarrow> net' a = net a)"
  using assms
  by (auto simp: DummyCriterion_Validate_def Let_def Inputs_def setInputFunctionValues_def
      Resize_def)

lemma exDummy_inputs:
  "m_children exDummy = [0, 1, 2]"
  "Inputs exDummy (exNetDummy c) 0
     = inputNode ''InputValue'' (matrixOfRows 1 1 [[5]]) (matrixOfRows 1 1 [[0]])"
  "Inputs exDummy (exNetDummy c) (Suc 0)
     = inputNode ''Plus'' (matrixOfRows 2 c [[1, 2, 3], [4, 5, 6]])
         (matrixOfRows 2 c [[0, 0, 0], [0, 0, 0]])"
  "Inputs exDummy (exNetDummy c) 2
     = inputNode ''Times'' (matrixOfRows 2 3 [[1, 1, 1], [1, 1, 1]])
         (matrixOfRows 2 3 [[0, 0, 0], [0, 0, 0]])"
  by (simp_all add: exDummy_def criterionBase_def Inputs_def exNetDummy_def)

lemma inputNode_simps:
  "OperationName (inputNode name v g) = name"
  "FunctionValues (inputNode name v g) = v"
  "GradientValues (inputNode name v g) = g"
  by (simp_all add: inputNode_def)

theorem C10_dummy_validate_witness:
  "OperationName (Inputs exDummy (exNetDummy 2) 1) = ''Plus''
   \<and> GetNumCols (FunctionValues (Inputs exDummy (exNetDummy 2) 1)) = 2
   \<and> (\<exists>n' net'.
        DummyCriterion_Validate (\<lambda>n net. Inr (n, net)) (\<lambda>i b n net. n) exDummy (exNetDummy 2)
          = Inr (n', net')
      \<and> GetNumRows (FunctionValues (Inputs exDummy net' 1)) = 2
      \<and> GetNumCols (FunctionValues (Inputs exDummy net' 1)) = 3)"
  using C10_dummy_validate[of "\<lambda>n net. Inr (n, net)" exDummy "exNetDummy 2" exDummy
      "exNetDummy 2" "\<lambda>i b n net. n"]
  by (simp add: exDummy_inputs inputNode_simps matrixOfRows_simps HasNoElements_def) blast

text \<open>
  The claim as stated fails: with input 0 an \<open>InputValue\<close> with one row and inputs 1
  and 2 of two rows each, validation raises when input 1 has no column, although its
  column count only differs from that of input 2.
\<close>

theorem C10_dummy_validate_counterexample:
  "OperationName (Inputs exDummy (exNetDummy 0) 0) = ''InputValue''
   \<and> GetNumRows (FunctionValues (Inputs exDummy (exNetDummy 0) 0)) = 1
   \<and> GetNumRows (FunctionValues (Inputs exDummy (exNetDummy 0) 1))
       = GetNumRows (FunctionValues (Inputs exDummy (exNetDummy 0) 2))
   \<and> GetNumCols (FunctionValues (Inputs exDummy (exNetDummy 0) 1))
       \<noteq> GetNumCols (FunctionValues (Inputs exDummy (exNetDummy 0) 2))
   \<and> DummyCriterion_Validate (\<lambda>n net. Inr (n, net)) (\<lambda>i b n net. n) exDummy (exNetDummy 0)
       = Inl (LogicError ''DummyCriterionNode operation: one of the operants has 0 element.'',
              (exDummy, exNetDummy 0))"
  by (simp add: DummyCriterion_Validate_def exDummy_inputs inputNode_simps matrixOfRows_simps
      HasNoElements_def)

subsection \<open>The device of the label tensor\<close>

lemma ClassBased_step_error:
  assumes "ClassBased_EvaluateThisNodeS_t layout lbls inputs w r t = Inl (e, s)"
    and "\<And>e' s'. r = Inl (e', s') \<Longrightarrow> e' \<noteq> labelNotOnCPU"
  shows "e \<noteq> labelNotOnCPU"
proof (cases r)
  case (Inl a)
  then show ?thesis using assms by (cases a) (auto simp: ClassBased_EvaluateThisNodeS_t_def)
next
  case (Inr s0)
  then show ?thesis using assms(1)
    by (auto simp: ClassBased_EvaluateThisNodeS_t_def Let_def labelNotOnCPU_def
        AddElementToElement_def split: if_splits prod.splits sum.splits)
qed

lemma ClassBased_loop_error:
  "foldl (ClassBased_EvaluateThisNodeS_t layout lbls inputs w) (Inr s0) ts = Inl (e, s)
     \<Longrightarrow> e \<noteq> labelNotOnCPU"
proof (induction ts arbitrary: e s rule: rev_induct)
  case Nil
  then show ?case by simp
next
  case (snoc t ts)
  then show ?case
    using ClassBased_step_error[of layout lbls inputs w
        "foldl (ClassBased_EvaluateThisNodeS_t layout lbls inputs w) (Inr s0) ts" t e s]
    by auto
qed

lemma ClassBased_EvaluateThisNodeS_error:
  "ClassBased_EvaluateThisNodeS layout s0 lbls inputs w cls = Inl (e, s) \<Longrightarrow> e \<noteq> labelNotOnCPU"
  unfolding ClassBased_EvaluateThisNodeS_def Let_def
  by (auto split: sum.splits dest: ClassBased_loop_error)

text \<open>
  Claim C9. When the label tensor (the value of input 0) is not on the CPU device, the
  forward evaluation of ClassBasedCrossEntropyWithSoftmax raises before any computation:
  the node, with its output and scratch tensors, and the network are as before the call.
  When the label tensor is on the CPU device, the call never raises that error, whatever
  the devices of the other three inputs.
\<close>

theorem C9_label_on_cpu:
  "(GetDeviceId (FunctionValues (Inputs n net 0)) \<noteq> CPUDEVICE
      \<longrightarrow> ClassBased_EvaluateThisNode CPUDEVICE n net = Inl (labelNotOnCPU, (n, net)))
   \<and> (GetDeviceId (FunctionValues (Inputs n net 0)) = CPUDEVICE
      \<longrightarrow> (\<forall>s. ClassBased_EvaluateThisNode CPUDEVICE n net \<noteq> Inl (labelNotOnCPU, s)))"
  unfolding ClassBased_EvaluateThisNode_def Let_def
  by (auto split: sum.splits dest: ClassBased_EvaluateThisNodeS_error)

subsection \<open>The persisted evaluation mode of the NCE node\<close>

lemma modeOfBytes_bytesOfMode: "modeOfBytes (bytesOfMode w) = w"
proof (rule bit_word_eqI)
  fix n assume "n < LENGTH(32)"
  then have n: "n < 32" by simp
  consider "n < 8" | "8 \<le> n" "n < 16" | "16 \<le> n" "n < 24" | "24 \<le> n" "n < 32"
    using n by linarith
  then show "bit (modeOfBytes (bytesOfMode w)) n = bit w n"
    unfolding modeOfBytes_def bytesOfMode_def
    by cases (auto simp: bit_simps)
qed

lemma length_bytesOfMode: "length (bytesOfMode w) = 4"
  by (simp add: bytesOfMode_def)

lemma getMode_putMode:
  "contents g = contents (putMode f w) \<Longrightarrow> GetPosition g = GetPosition f \<Longrightarrow>
   getMode g = Inr (w, g\<lparr>GetPosition := GetPosition f + sizeof_evalMode\<rparr>)"
  unfolding getMode_def putMode_def Let_def sizeof_evalMode_def
  by (auto simp: modeOfBytes_bytesOfMode length_bytesOfMode)

text \<open>
  Claim C4, as amended. Let the base part of the load leave the stream \<open>g\<close> with its
  cursor at the start of the mode value. Reading back what was written for the mode
  Unnormalized yields Unnormalized with the cursor past the value. A value greater than
  None yields None, and the cursor is moved back by one mode width from the end of the
  value: it is left at the start of the value that was read. The values Softmax,
  Unnormalized and None are loaded as they are, with the cursor past the value.
\<close>

theorem C4_nce_mode_roundtrip:
  assumes "baseLoadFromFile n0 g0 modelVersion = Inr (n1, g)"
  shows "(contents g = contents (NCE_SaveToFile baseSaveToFile n fstream)
          \<and> GetPosition g = GetPosition (baseSaveToFile n fstream)
          \<and> m_evalMode n = NCEEvalMode_Unnormalized
        \<longrightarrow> NCE_LoadFromFile baseLoadFromFile n0 g0 modelVersion
            = Inr (n1\<lparr>m_evalMode := NCEEvalMode_Unnormalized\<rparr>,
                   g\<lparr>GetPosition := GetPosition g + sizeof_evalMode\<rparr>))
     \<and> (GetPosition g + sizeof_evalMode \<le> length (contents g)
          \<and> sint (modeOfBytes (take sizeof_evalMode (drop (GetPosition g) (contents g))))
              > sint NCEEvalMode_None
        \<longrightarrow> NCE_LoadFromFile baseLoadFromFile n0 g0 modelVersion
            = Inr (n1\<lparr>m_evalMode := NCEEvalMode_None\<rparr>, g))
     \<and> (GetPosition g + sizeof_evalMode \<le> length (contents g)
          \<and> modeOfBytes (take sizeof_evalMode (drop (GetPosition g) (contents g)))
              \<in> {NCEEvalMode_Softmax, NCEEvalMode_Unnormalized, NCEEvalMode_None}
        \<longrightarrow> NCE_LoadFromFile baseLoadFromFile n0 g0 modelVersion
            = Inr (n1\<lparr>m_evalMode :=
                       modeOfBytes (take sizeof_evalMode (drop (GetPosition g) (contents g)))\<rparr>,
                   g\<lparr>GetPosition := GetPosition g + sizeof_evalMode\<rparr>))"
proof (intro conjI impI)
  assume a: "contents g = contents (NCE_SaveToFile baseSaveToFile n fstream)
          \<and> GetPosition g = GetPosition (baseSaveToFile n fstream)
          \<and> m_evalMode n = NCEEvalMode_Unnormalized"
  then have "getMode g
      = Inr (NCEEvalMode_Unnormalized, g\<lparr>GetPosition := GetPosition g + sizeof_evalMode\<rparr>)"
    using getMode_putMode[of g "baseSaveToFile n fstream" "m_evalMode n"]
    by (simp add: NCE_SaveToFile_def)
  then show "NCE_LoadFromFile baseLoadFromFile n0 g0 modelVersion
            = Inr (n1\<lparr>m_evalMode := NCEEvalMode_Unnormalized\<rparr>,
                   g\<lparr>GetPosition := GetPosition g + sizeof_evalMode\<rparr>)"
    using assms
    by (simp add: NCE_LoadFromFile_def NCEEvalMode_Unnormalized_def NCEEvalMode_None_def)
next
  assume "GetPosition g + sizeof_evalMode \<le> length (contents g)
          \<and> sint (modeOfBytes (take sizeof_evalMode (drop (GetPosition g) (contents g))))
              > sint NCEEvalMode_None"
  then show "NCE_LoadFromFile baseLoadFromFile n0 g0 modelVersion
            = Inr (n1\<lparr>m_evalMode := NCEEvalMode_None\<rparr>, g)"
    using assms
    by (simp add: NCE_LoadFromFile_def getMode_def Let_def SetPosition_def)
next
  assume "GetPosition g + sizeof_evalMode \<le> length (contents g)
          \<and> modeOfBytes (take sizeof_evalMode (drop (GetPosition g) (contents g)))
              \<in> {NCEEvalMode_Softmax, NCEEvalMode_Unnormalized, NCEEvalMode_None}"
  then show "NCE_LoadFromFile baseLoadFromFile n0 g0 modelVersion
            = Inr (n1\<lparr>m_evalMode :=
                       modeOfBytes (take sizeof_evalMode (drop (GetPosition g) (contents g)))\<rparr>,
                   g\<lparr>GetPosition := GetPosition g + sizeof_evalMode\<rparr>)"
    using assms
    by (auto simp add: NCE_LoadFromFile_def getMode_def Let_def NCEEvalMode_Softmax_def
        NCEEvalMode_Unnormalized_def NCEEvalMode_None_def)
qed

lemma exNCE_mode: "m_evalMode (exNCE mode) = mode"
  by (simp add: exNCE_def ComputationNode.defs NoiseContrastiveEstimationNode.defs)

lemma exNCE_mode_update: "(exNCE mode)\<lparr>m_evalMode := mode'\<rparr> = exNCE mode'"
  by (simp add: exNCE_def ComputationNode.defs NoiseContrastiveEstimationNode.defs)

theorem C4_nce_mode_roundtrip_witness:
  "NCE_SaveToFile (\<lambda>n f. f) (exNCE NCEEvalMode_Unnormalized)
       \<lparr>contents = [9, 9], GetPosition = 2\<rparr>
     = \<lparr>contents = [9, 9, 1, 0, 0, 0], GetPosition = 6\<rparr>
   \<and> NCE_LoadFromFile (\<lambda>n f v. Inr (n, f)) (exNCE NCEEvalMode_None)
       \<lparr>contents = [9, 9, 1, 0, 0, 0], GetPosition = 2\<rparr> 0
     = Inr (exNCE NCEEvalMode_Unnormalized, \<lparr>contents = [9, 9, 1, 0, 0, 0], GetPosition = 6\<rparr>)
   \<and> NCE_LoadFromFile (\<lambda>n f v. Inr (n, f)) (exNCE NCEEvalMode_Softmax)
       \<lparr>contents = [9, 9, 7, 0, 0, 0], GetPosition = 2\<rparr> 0
     = Inr (exNCE NCEEvalMode_None, \<lparr>contents = [9, 9, 7, 0, 0, 0], GetPosition = 2\<rparr>)
   \<and> NCE_LoadFromFile (\<lambda>n f v. Inr (n, f)) (exNCE NCEEvalMode_Softmax)
       \<lparr>contents = [9, 9, 2, 0, 0, 0], GetPosition = 2\<rparr> 0
     = Inr (exNCE NCEEvalMode_None, \<lparr>contents = [9, 9, 2, 0, 0, 0], GetPosition = 6\<rparr>)"
proof -
  have s: "NCE_SaveToFile (\<lambda>n f. f) (exNCE NCEEvalMode_Unnormalized)
       \<lparr>contents = [9, 9], GetPosition = 2\<rparr>
     = \<lparr>contents = [9, 9, 1, 0, 0, 0], GetPosition = 6\<rparr>"
    by (simp add: NCE_SaveToFile_def putMode_def exNCE_mode sizeof_evalMode_def bytesOfMode_def
        NCEEvalMode_Unnormalized_def Let_def)
  have r1: "NCE_LoadFromFile (\<lambda>n f v. Inr (n, f)) (exNCE NCEEvalMode_None)
       \<lparr>contents = [9, 9, 1, 0, 0, 0], GetPosition = 2\<rparr> 0
     = Inr (exNCE NCEEvalMode_Unnormalized, \<lparr>contents = [9, 9, 1, 0, 0, 0], GetPosition = 6\<rparr>)"
    using C4_nce_mode_roundtrip[where baseLoadFromFile = "\<lambda>n f v. Inr (n, f)"
        and ?n0.0 = "exNCE NCEEvalMode_None" and ?g0.0 = "\<lparr>contents = [9, 9, 1, 0, 0, 0], GetPosition = 2\<rparr>" and modelVersion = 0
        and ?n1.0 = "exNCE NCEEvalMode_None" and g = "\<lparr>contents = [9, 9, 1, 0, 0, 0], GetPosition = 2\<rparr>" and baseSaveToFile = "\<lambda>n f. f"
        and n = "exNCE NCEEvalMode_Unnormalized"
        and fstream = "\<lparr>contents = [9, 9], GetPosition = 2\<rparr>"] s
    by (simp add: exNCE_mode exNCE_mode_update sizeof_evalMode_def)
  have r2: "NCE_LoadFromFile (\<lambda>n f v. Inr (n, f)) (exNCE NCEEvalMode_Softmax)
       \<lparr>contents = [9, 9, 7, 0, 0, 0], GetPosition = 2\<rparr> 0
     = Inr (exNCE NCEEvalMode_None, \<lparr>contents = [9, 9, 7, 0, 0, 0], GetPosition = 2\<rparr>)"
    using C4_nce_mode_roundtrip[where baseLoadFromFile = "\<lambda>n f v. Inr (n, f)"
        and ?n0.0 = "exNCE NCEEvalMode_Softmax" and ?g0.0 = "\<lparr>contents = [9, 9, 7, 0, 0, 0], GetPosition = 2\<rparr>" and modelVersion = 0
        and ?n1.0 = "exNCE NCEEvalMode_Softmax" and g = "\<lparr>contents = [9, 9, 7, 0, 0, 0], GetPosition = 2\<rparr>" and baseSaveToFile = "\<lambda>n f. f"
        and n = "exNCE NCEEvalMode_Unnormalized"
        and fstream = "\<lparr>contents = [9, 9], GetPosition = 2\<rparr>"]
    by (simp add: exNCE_mode_update sizeof_evalMode_def modeOfBytes_def NCEEvalMode_None_def)
  have r3: "NCE_LoadFromFile (\<lambda>n f v. Inr (n, f)) (exNCE NCEEvalMode_Softmax)
       \<lparr>contents = [9, 9, 2, 0, 0, 0], GetPosition = 2\<rparr> 0
     = Inr (exNCE NCEEvalMode_None, \<lparr>contents = [9, 9, 2, 0, 0, 0], GetPosition = 6\<rparr>)"
    using C4_nce_mode_roundtrip[where baseLoadFromFile = "\<lambda>n f v. Inr (n, f)"
        and ?n0.0 = "exNCE NCEEvalMode_Softmax" and ?g0.0 = "\<lparr>contents = [9, 9, 2, 0, 0, 0], GetPosition = 2\<rparr>" and modelVersion = 0
        and ?n1.0 = "exNCE NCEEvalMode_Softmax" and g = "\<lparr>contents = [9, 9, 2, 0, 0, 0], GetPosition = 2\<rparr>" and baseSaveToFile = "\<lambda>n f. f"
        and n = "exNCE NCEEvalMode_Unnormalized"
        and fstream = "\<lparr>contents = [9, 9], GetPosition = 2\<rparr>"]
    by (simp add: exNCE_mode_update sizeof_evalMode_def modeOfBytes_def NCEEvalMode_None_def
        NCEEvalMode_Softmax_def NCEEvalMode_Unnormalized_def)
  show ?thesis using s r1 r2 r3 by simp
qed

text \<open>
  The claim as stated fails: the out-of-range value 7 is stored at offset 2 of the
  stream; after the load the cursor is at offset 2, the start of that value, and not one
  mode width before it.
\<close>

theorem C4_nce_mode_roundtrip_counterexample:
  "NCE_LoadFromFile (\<lambda>n f v. Inr (n, f)) (exNCE NCEEvalMode_Softmax)
       \<lparr>contents = [9, 9, 9, 9, 7, 0, 0, 0], GetPosition = 4\<rparr> 0
     = Inr (exNCE NCEEvalMode_None, \<lparr>contents = [9, 9, 9, 9, 7, 0, 0, 0], GetPosition = 4\<rparr>)
   \<and> (4::nat) \<noteq> 4 - sizeof_evalMode"
  by (simp add: NCE_LoadFromFile_def getMode_def Let_def SetPosition_def sizeof_evalMode_def
      modeOfBytes_def NCEEvalMode_None_def exNCE_mode_update)

lemma exCB_simps:
  "m_children (exCB stale) = [0, 1, 2, 3]"
  "GradientValues (exCB stale) = matrixOfRows 1 1 [[1]]"
  "m_pMBLayout (exCB stale) = None"
  "m_softMax (exCB stale) = matrixOfRows 1 1 [[1]]"
  "m_clsSoftmax (exCB stale) = matrixOfRows 1 2 [[1, 1]]"
  "m_grdToSoftMaxInput (exCB stale) = matrixOfRows 1 1 [[2]]"
  "m_needRecomputeGradientToSoftmaxInput (exCB stale) = stale"
  "m_totalNbrWords (exCB stale) = 1"
  by (simp_all add: exCB_def criterionBase_def ComputationNode.defs
      ClassBasedCrossEntropyWithSoftmaxNode.defs)

lemma exNetCB_inputs:
  "Inputs (exCB stale) (exNetCB lbl g) 0 = inputNode ''InputValue'' lbl (matrixOfRows 4 2 [])"
  "Inputs (exCB stale) (exNetCB lbl g) (Suc 0)
     = inputNode ''Hidden'' (matrixOfRows 1 2 [[3, 3]]) (matrixOfRows 1 2 [[g, g]])"
  "Inputs (exCB stale) (exNetCB lbl g) 2
     = inputNode ''LearnableParameter'' (matrixOfRows 1 1 [[5]]) (matrixOfRows 1 1 [[g]])"
  "Inputs (exCB stale) (exNetCB lbl g) 3
     = inputNode ''Times'' (matrixOfRows 1 2 [[0, 0]]) (matrixOfRows 1 2 [[g, g]])"
  by (simp_all add: Inputs_def exCB_simps exNetCB_def)

theorem C9_label_on_cpu_witness:
  "GetDeviceId (FunctionValues (Inputs (exCB True) (exNetCB exLblCB 0) 0)) = 0
   \<and> ClassBased_EvaluateThisNode (- 1) (exCB True) (exNetCB exLblCB 0)
       = Inl (labelNotOnCPU, (exCB True, exNetCB exLblCB 0))
   \<and> (\<forall>s. ClassBased_EvaluateThisNode 0 (exCB True) (exNetCB exLblCB 0)
            \<noteq> Inl (labelNotOnCPU, s))"
  using C9_label_on_cpu[of "exCB True" "exNetCB exLblCB 0" "- 1"]
    C9_label_on_cpu[of "exCB True" "exNetCB exLblCB 0" 0]
  by (simp add: exNetCB_inputs inputNode_simps exLblCB_def matrixOfRows_simps)

subsection \<open>Columns without a label in the class-based node\<close>




lemma word_diff_eq_0: "(a::size_t) - b = 0 \<longleftrightarrow> a = b"
  by simp





















subsection \<open>Accumulation of the gradients of the class-based node\<close>

















lemma foldl_invariant:
  "I a \<Longrightarrow> (\<And>a x. I a \<Longrightarrow> I (f a x)) \<Longrightarrow> I (foldl f a xs)"
  by (induction xs arbitrary: a) auto






subsection \<open>Skipped and rejected label columns\<close>















subsection \<open>Accumulation into the gradient of an input\<close>







lemma sum_lessThan_2: "(\<Sum>t<(2::nat). f t) = f 0 + f (Suc 0)"
  by (simp add: numeral_2_eq_2 lessThan_Suc add.commute)

lemma exNetCRF_inputs:
  "FunctionValues (Inputs exCRF exNetCRF 0) = exLbls"
  "FunctionValues (Inputs exCRF exNetCRF (Suc 0)) = exPos"
  "FunctionValues (Inputs exCRF exNetCRF 2) = exPair"
  by (simp_all add: Inputs_def exCRF_def criterionBase_def exNetCRF_def inputNode_simps
      ComputationNode.defs CRFNode.defs)




subsection \<open>The output of the CRF node\<close>

lemma transitionScore_labelled:
  "\<forall>t\<in>set ts. labelInRange lbls pair t \<and> labelInRange lbls pair (Suc t) \<Longrightarrow>
   transitionScore lbls pair ts acc
     = Inr (acc + sum_list (map (\<lambda>t. Elem pair (nat (labelAt lbls (t + 1))) (nat (labelAt lbls t))) ts))"
  by (induction ts arbitrary: acc) (auto simp: Let_def labelInRange_def labelAt_def)

lemma allLabelledD:
  "allLabelled lbls pair \<Longrightarrow> t < GetNumCols lbls \<Longrightarrow> labelInRange lbls pair t"
  by (simp add: allLabelled_def list_all_iff)

lemma transitionScore_path:
  assumes "allLabelled lbls pair"
  shows "transitionScore lbls pair [0..<GetNumCols lbls - 1] 0
           = Inr (pathTransitionScore lbls pair)"
proof -
  have "\<forall>t\<in>set [0..<GetNumCols lbls - 1].
          labelInRange lbls pair t \<and> labelInRange lbls pair (Suc t)"
    using allLabelledD[OF assms] by auto
  from transitionScore_labelled[OF this, of 0] show ?thesis
    by (simp add: pathTransitionScore_def)
qed

lemma LogAddSum_ColumnSlice:
  "LogAddSumOfElements LZERO LogAdd (ColumnSlice a c (Suc 0))
     = logAddOver LZERO LogAdd (GetNumRows a) (\<lambda>k. Elem a k c)"
  by (simp add: LogAddSumOfElements_def ColumnSlice_def logAddOver_def foldl_map)

lemma fAlpha_spec:
  assumes "0 < GetNumCols lbls"
  shows "LogAddSumOfElements LZERO LogAdd
           (ColumnSlice (ForwardCompute LZERO LogAdd alpha lbls pos pair) (GetNumCols lbls - Suc 0)
              (Suc 0))
     = logAddOver LZERO LogAdd (GetNumRows lbls)
         (\<lambda>k. alphaSpec LZERO LogAdd lbls pos pair (GetNumCols lbls - Suc 0) k)"
  unfolding LogAddSum_ColumnSlice ForwardCompute_dims
  by (rule logAddOver_cong) (use assms in \<open>simp add: ForwardCompute_Elem\<close>)

lemma CRF_EvaluateThisNodeS_value:
  assumes "0 < GetNumCols lbls" and "transitionScore lbls pair [0..<GetNumCols lbls - 1] 0
           = Inr (pathTransitionScore lbls pair)"
  shows "\<exists>pp b fv.
     CRF_EvaluateThisNodeS LZERO LogAdd rcrf pp0 a0 b0 fv0 lbls pos pair
       = Inr (pp, ForwardCompute LZERO LogAdd a0 lbls pos pair, b, fv,
              labelAt lbls 0, labelAt lbls (GetNumCols lbls - 1))
     \<and> (\<forall>i j. Elem fv i j = seqNLL LZERO LogAdd lbls pos pair)"
  using assms
  by (simp add: CRF_EvaluateThisNodeS_def Let_def fAlpha_spec seqNLL_def labelAt_def
      timesAssign_def SetValue_def AssignInnerProductOfMatrices_def Get00Element_def
      split: prod.splits)


lemma Inputs_children: "m_children n' = m_children n \<Longrightarrow> Inputs n' net i = Inputs n net i"
  by (simp add: Inputs_def)

lemma CRF_step:
  assumes "0 < nstep"
    and "allLabelled (ColumnSlice (FunctionValues (Inputs n net 0)) (i * nstep) nstep)
           (FunctionValues (Inputs n net 2))"
  shows "\<exists>n' fv'.
     CRF_EvaluateThisNode_i LZERO LogAdd rcrf net nstep (Inr (n, fv0)) i = Inr (n', fv')
     \<and> m_children n' = m_children n
     \<and> (\<forall>a b. Elem (FunctionValues n') a b
           = Elem (FunctionValues n) a b
             + seqNLL LZERO LogAdd
                 (ColumnSlice (FunctionValues (Inputs n net 0)) (i * nstep) nstep)
                 (ColumnSlice (FunctionValues (Inputs n net 1)) (i * nstep) nstep)
                 (FunctionValues (Inputs n net 2)))"
proof -
  let ?lbls = "ColumnSlice (FunctionValues (Inputs n net 0)) (i * nstep) nstep"
  let ?pos = "ColumnSlice (FunctionValues (Inputs n net 1)) (i * nstep) nstep"
  let ?pair = "FunctionValues (Inputs n net 2)"
  have c: "0 < GetNumCols ?lbls"
    using assms(1) by (simp add: ColumnSlice_def)
  obtain pp b fv where
    e: "CRF_EvaluateThisNodeS LZERO LogAdd rcrf (ColumnSlice (mPostProb n) (i * nstep) nstep)
          (ColumnSlice (mAlpha n) (i * nstep) nstep) (ColumnSlice (mBeta n) (i * nstep) nstep)
          fv0 ?lbls ?pos ?pair
       = Inr (pp, ForwardCompute LZERO LogAdd (ColumnSlice (mAlpha n) (i * nstep) nstep)
                    ?lbls ?pos ?pair, b, fv,
              labelAt ?lbls 0, labelAt ?lbls (GetNumCols ?lbls - 1))"
    and v: "\<And>i j. Elem fv i j = seqNLL LZERO LogAdd ?lbls ?pos ?pair"
    using CRF_EvaluateThisNodeS_value[OF c transitionScore_path[OF assms(2)]] by blast
  show ?thesis
    using e by (simp add: CRF_EvaluateThisNode_i_def Let_def plusAssign_def v)
qed

lemma CRF_loop:
  assumes "0 < nstep"
    and "\<forall>i<nS. allLabelled (ColumnSlice (FunctionValues (Inputs n net 0)) (i * nstep) nstep)
           (FunctionValues (Inputs n net 2))"
  shows "m \<le> nS \<Longrightarrow> \<exists>n' fv'.
     foldl (CRF_EvaluateThisNode_i LZERO LogAdd rcrf net nstep) (Inr (n, fv0)) [0..<m]
       = Inr (n', fv')
     \<and> m_children n' = m_children n
     \<and> (\<forall>a b. Elem (FunctionValues n') a b
           = Elem (FunctionValues n) a b
             + (\<Sum>i<m. seqNLL LZERO LogAdd
                 (ColumnSlice (FunctionValues (Inputs n net 0)) (i * nstep) nstep)
                 (ColumnSlice (FunctionValues (Inputs n net 1)) (i * nstep) nstep)
                 (FunctionValues (Inputs n net 2))))"
proof (induction m)
  case 0
  then show ?case by simp
next
  case (Suc m)
  then obtain n1 fv1 where
    f: "foldl (CRF_EvaluateThisNode_i LZERO LogAdd rcrf net nstep) (Inr (n, fv0)) [0..<m]
          = Inr (n1, fv1)"
    and ch: "m_children n1 = m_children n"
    and v: "\<And>a b. Elem (FunctionValues n1) a b
           = Elem (FunctionValues n) a b
             + (\<Sum>i<m. seqNLL LZERO LogAdd
                 (ColumnSlice (FunctionValues (Inputs n net 0)) (i * nstep) nstep)
                 (ColumnSlice (FunctionValues (Inputs n net 1)) (i * nstep) nstep)
                 (FunctionValues (Inputs n net 2)))"
    by auto
  have i: "Inputs n1 net j = Inputs n net j" for j
    by (rule Inputs_children[OF ch])
  have "allLabelled (ColumnSlice (FunctionValues (Inputs n1 net 0)) (m * nstep) nstep)
           (FunctionValues (Inputs n1 net 2))"
    using assms(2) Suc.prems by (simp add: i)
  from CRF_step[OF assms(1) this, of LZERO LogAdd rcrf fv1]
  obtain n2 fv2 where
    s: "CRF_EvaluateThisNode_i LZERO LogAdd rcrf net nstep (Inr (n1, fv1)) m = Inr (n2, fv2)"
    and ch2: "m_children n2 = m_children n1"
    and v2: "\<And>a b. Elem (FunctionValues n2) a b
           = Elem (FunctionValues n1) a b
             + seqNLL LZERO LogAdd
                 (ColumnSlice (FunctionValues (Inputs n1 net 0)) (m * nstep) nstep)
                 (ColumnSlice (FunctionValues (Inputs n1 net 1)) (m * nstep) nstep)
                 (FunctionValues (Inputs n1 net 2))"
    by blast
  show ?case
    by (simp add: f s ch ch2 v2 v i)
qed

lemma CRF_EvaluateThisNode_sum:
  assumes "0 < nS"
    and "0 < GetNumCols (FunctionValues (Inputs n net 0)) div nS"
    and "\<forall>i<nS. allLabelled
           (ColumnSlice (FunctionValues (Inputs n net 0))
              (i * (GetNumCols (FunctionValues (Inputs n net 0)) div nS))
              (GetNumCols (FunctionValues (Inputs n net 0)) div nS))
           (FunctionValues (Inputs n net 2))"
  shows "\<exists>n'. CRF_EvaluateThisNode LZERO LogAdd rcrf nS n net = Inr (n', net)
     \<and> (\<forall>a b. Elem (FunctionValues n') a b
           = (\<Sum>i<nS. seqNLL LZERO LogAdd
                 (ColumnSlice (FunctionValues (Inputs n net 0))
                    (i * (GetNumCols (FunctionValues (Inputs n net 0)) div nS))
                    (GetNumCols (FunctionValues (Inputs n net 0)) div nS))
                 (ColumnSlice (FunctionValues (Inputs n net 1))
                    (i * (GetNumCols (FunctionValues (Inputs n net 0)) div nS))
                    (GetNumCols (FunctionValues (Inputs n net 0)) div nS))
                 (FunctionValues (Inputs n net 2))))"
proof -
  let ?nrow = "GetNumRows (FunctionValues (Inputs n net 0))"
  let ?ncol = "GetNumCols (FunctionValues (Inputs n net 0))"
  let ?n1 = "n\<lparr>mAlpha := Resize (mAlpha n) ?nrow ?ncol,
                  mBeta := Resize (mBeta n) ?nrow ?ncol,
                  mPostProb := Resize (mPostProb n) ?nrow ?ncol\<rparr>"
  let ?n2 = "?n1\<lparr>FunctionValues := SetValue (FunctionValues ?n1) 0\<rparr>"
  have i: "Inputs ?n2 net j = Inputs n net j" for j
    by (rule Inputs_children) simp
  have l: "\<forall>i<nS. allLabelled
           (ColumnSlice (FunctionValues (Inputs ?n2 net 0)) (i * (?ncol div nS)) (?ncol div nS))
           (FunctionValues (Inputs ?n2 net 2))"
    using assms(3) unfolding i .
  from CRF_loop[OF assms(2) l order_refl, of LZERO LogAdd rcrf "FunctionValues ?n2"]
  obtain n' fv' where
    f: "foldl (CRF_EvaluateThisNode_i LZERO LogAdd rcrf net (?ncol div nS))
          (Inr (?n2, FunctionValues ?n2)) [0..<nS] = Inr (n', fv')"
    and v: "\<And>a b. Elem (FunctionValues n') a b
           = Elem (FunctionValues ?n2) a b
             + (\<Sum>i<nS. seqNLL LZERO LogAdd
                 (ColumnSlice (FunctionValues (Inputs ?n2 net 0)) (i * (?ncol div nS)) (?ncol div nS))
                 (ColumnSlice (FunctionValues (Inputs ?n2 net 1)) (i * (?ncol div nS)) (?ncol div nS))
                 (FunctionValues (Inputs ?n2 net 2)))"
    by blast
  have "CRF_EvaluateThisNode LZERO LogAdd rcrf nS n net = Inr (n', net)"
    using assms(1) f by (simp add: CRF_EvaluateThisNode_def Let_def)
  moreover have "Elem (FunctionValues ?n2) a b = 0" for a b
    by (simp add: SetValue_def)
  ultimately show ?thesis
    using v unfolding i by simp
qed

lemma oneHotD:
  assumes "oneHot lbls y t"
  shows "y < GetNumRows lbls" and "Elem lbls y t = 1"
    and "\<forall>i<GetNumRows lbls. i \<noteq> y \<longrightarrow> Elem lbls i t = 0"
  using assms by (auto simp: oneHot_def list_all_iff)

lemma InnerProduct_oneHot:
  assumes "GetNumCols lbls = Suc 0" and "oneHot lbls y 0"
  shows "InnerProductOfMatrices lbls pos = Elem pos y 0"
proof -
  have "(\<Sum>i<GetNumRows lbls. Elem lbls i 0 * Elem pos i 0)
      = (\<Sum>i<GetNumRows lbls. if i = y then Elem pos i 0 else 0)"
    by (rule sum.cong) (use oneHotD[OF assms(2)] in auto)
  also have "\<dots> = Elem pos y 0"
    using oneHotD(1)[OF assms(2)] by simp
  finally show ?thesis
    using assms(1) by (simp add: InnerProductOfMatrices_def)
qed

lemma CRF_length_one:
  assumes "GetNumCols lbls = Suc 0" and "oneHot lbls y 0"
  shows "\<exists>pp a b fv f l.
     CRF_EvaluateThisNodeS LZERO LogAdd rcrf pp0 a0 b0 fv0 lbls pos pair
       = Inr (pp, a, b, fv, f, l)
     \<and> (\<forall>k<GetNumRows lbls. Elem a k 0
           = Elem pos k 0
             + logAddOver LZERO LogAdd (GetNumRows lbls)
                 (\<lambda>j. (if j = y then 0 else LZERO) + Elem pair k j))
     \<and> Get00Element fv
         = - Elem pos y 0 + logAddOver LZERO LogAdd (GetNumRows lbls) (\<lambda>k. Elem a k 0)"
proof -
  let ?a = "ForwardCompute LZERO LogAdd a0 lbls pos pair"
  have c: "0 < GetNumCols lbls" using assms(1) by simp
  have t: "transitionScore lbls pair [0..<GetNumCols lbls - 1] 0
             = Inr (pathTransitionScore lbls pair)"
    using assms(1) by (simp add: pathTransitionScore_def)
  obtain pp b fv where
    e: "CRF_EvaluateThisNodeS LZERO LogAdd rcrf pp0 a0 b0 fv0 lbls pos pair
       = Inr (pp, ?a, b, fv, labelAt lbls 0, labelAt lbls (GetNumCols lbls - 1))"
    and v: "\<And>i j. Elem fv i j = seqNLL LZERO LogAdd lbls pos pair"
    using CRF_EvaluateThisNodeS_value[OF c t] by blast
  have y: "findLabel lbls 0 [0..<GetNumRows lbls] = int y"
    using oneHotD[OF assms(2)] by (intro findLabel_onehot) auto
  have a: "Elem ?a k 0
           = Elem pos k 0
             + logAddOver LZERO LogAdd (GetNumRows lbls)
                 (\<lambda>j. (if j = y then 0 else LZERO) + Elem pair k j)"
    if "k < GetNumRows lbls" for k
    using that c by (simp add: ForwardCompute_Elem y)
  have "logAddOver LZERO LogAdd (GetNumRows lbls)
          (\<lambda>k. alphaSpec LZERO LogAdd lbls pos pair 0 k)
      = logAddOver LZERO LogAdd (GetNumRows lbls) (\<lambda>k. Elem ?a k 0)"
    by (rule logAddOver_cong) (use c in \<open>simp add: ForwardCompute_Elem\<close>)
  then have "Get00Element fv
         = - Elem pos y 0 + logAddOver LZERO LogAdd (GetNumRows lbls) (\<lambda>k. Elem ?a k 0)"
    using assms(1)
    by (simp add: Get00Element_def v seqNLL_def InnerProduct_oneHot[OF assms]
        pathTransitionScore_def)
  then show ?thesis
    using e a by blast
qed


text \<open>
  Claim C3, as amended. On a sequence of length 1 whose label column is one-hot at
  \<open>y\<close>, the forward evaluation of the CRF node returns with
  \<open>alpha[k,0] = posScores[k,0] + logAddOverJ((j == y ? 0 : LZERO) + pairScores[k,j])\<close>
  for every label \<open>k\<close>, and its output is \<open>-posScores[y,0] + logAddOverK(alpha[k,0])\<close>.
  On a sequence with at least one column and a label in every column, the output is the
  negative of (the inner product of labels and position scores plus the transition score
  of the label path, minus \<open>logAddOverK(alpha[k,T-1])\<close>). The output of the node is the
  sum of these values over the parallel sequences.
\<close>

theorem C3_crf_output:
  "(GetNumCols lbls = 1 \<and> oneHot lbls y 0 \<longrightarrow>
      (\<exists>pp a b fv f l.
         CRF_EvaluateThisNodeS LZERO LogAdd rcrfBackwardCompute pp0 a0 b0 fv0 lbls pos_scores
             pair_scores
           = Inr (pp, a, b, fv, f, l)
         \<and> (\<forall>k<GetNumRows lbls. Elem a k 0
               = Elem pos_scores k 0
                 + logAddOver LZERO LogAdd (GetNumRows lbls)
                     (\<lambda>j. (if j = y then 0 else LZERO) + Elem pair_scores k j))
         \<and> Get00Element fv
             = - Elem pos_scores y 0
               + logAddOver LZERO LogAdd (GetNumRows lbls) (\<lambda>k. Elem a k 0)))
   \<and> (0 < GetNumCols lbls \<and> allLabelled lbls pair_scores \<longrightarrow>
      (\<exists>pp b fv.
         CRF_EvaluateThisNodeS LZERO LogAdd rcrfBackwardCompute pp0 a0 b0 fv0 lbls pos_scores
             pair_scores
           = Inr (pp, ForwardCompute LZERO LogAdd a0 lbls pos_scores pair_scores, b, fv,
                  labelAt lbls 0, labelAt lbls (GetNumCols lbls - 1))
         \<and> Get00Element fv
             = - ((InnerProductOfMatrices lbls pos_scores + pathTransitionScore lbls pair_scores)
                  - logAddOver LZERO LogAdd (GetNumRows lbls)
                      (\<lambda>k. Elem (ForwardCompute LZERO LogAdd a0 lbls pos_scores pair_scores) k
                             (GetNumCols lbls - 1)))
         \<and> Get00Element fv = seqNLL LZERO LogAdd lbls pos_scores pair_scores))
   \<and> (0 < nS \<and> 0 < GetNumCols (FunctionValues (Inputs n net 0)) div nS
       \<and> (\<forall>i<nS. allLabelled
             (ColumnSlice (FunctionValues (Inputs n net 0))
                (i * (GetNumCols (FunctionValues (Inputs n net 0)) div nS))
                (GetNumCols (FunctionValues (Inputs n net 0)) div nS))
             (FunctionValues (Inputs n net 2))) \<longrightarrow>
      (\<exists>n'. CRF_EvaluateThisNode LZERO LogAdd rcrfBackwardCompute nS n net = Inr (n', net)
         \<and> Get00Element (FunctionValues n')
             = (\<Sum>i<nS. seqNLL LZERO LogAdd
                   (ColumnSlice (FunctionValues (Inputs n net 0))
                      (i * (GetNumCols (FunctionValues (Inputs n net 0)) div nS))
                      (GetNumCols (FunctionValues (Inputs n net 0)) div nS))
                   (ColumnSlice (FunctionValues (Inputs n net 1))
                      (i * (GetNumCols (FunctionValues (Inputs n net 0)) div nS))
                      (GetNumCols (FunctionValues (Inputs n net 0)) div nS))
                   (FunctionValues (Inputs n net 2)))))"
proof (intro conjI impI)
  assume "GetNumCols lbls = 1 \<and> oneHot lbls y 0"
  then have "GetNumCols lbls = Suc 0" and "oneHot lbls y 0"
    by simp_all
  then show "\<exists>pp a b fv f l.
         CRF_EvaluateThisNodeS LZERO LogAdd rcrfBackwardCompute pp0 a0 b0 fv0 lbls pos_scores
             pair_scores
           = Inr (pp, a, b, fv, f, l)
         \<and> (\<forall>k<GetNumRows lbls. Elem a k 0
               = Elem pos_scores k 0
                 + logAddOver LZERO LogAdd (GetNumRows lbls)
                     (\<lambda>j. (if j = y then 0 else LZERO) + Elem pair_scores k j))
         \<and> Get00Element fv
             = - Elem pos_scores y 0
               + logAddOver LZERO LogAdd (GetNumRows lbls) (\<lambda>k. Elem a k 0)"
    by (rule CRF_length_one)
next
  assume h: "0 < GetNumCols lbls \<and> allLabelled lbls pair_scores"
  let ?a = "ForwardCompute LZERO LogAdd a0 lbls pos_scores pair_scores"
  obtain pp b fv where
    e: "CRF_EvaluateThisNodeS LZERO LogAdd rcrfBackwardCompute pp0 a0 b0 fv0 lbls pos_scores
          pair_scores
       = Inr (pp, ?a, b, fv, labelAt lbls 0, labelAt lbls (GetNumCols lbls - 1))"
    and v: "\<And>i j. Elem fv i j = seqNLL LZERO LogAdd lbls pos_scores pair_scores"
    using CRF_EvaluateThisNodeS_value[OF conjunct1[OF h] transitionScore_path[OF conjunct2[OF h]]]
    by blast
  have "logAddOver LZERO LogAdd (GetNumRows lbls)
          (\<lambda>k. alphaSpec LZERO LogAdd lbls pos_scores pair_scores (GetNumCols lbls - 1) k)
      = logAddOver LZERO LogAdd (GetNumRows lbls) (\<lambda>k. Elem ?a k (GetNumCols lbls - 1))"
    by (rule logAddOver_cong) (use h in \<open>simp add: ForwardCompute_Elem\<close>)
  then have "Get00Element fv
             = - ((InnerProductOfMatrices lbls pos_scores + pathTransitionScore lbls pair_scores)
                  - logAddOver LZERO LogAdd (GetNumRows lbls)
                      (\<lambda>k. Elem ?a k (GetNumCols lbls - 1)))"
    by (simp add: Get00Element_def v seqNLL_def)
  moreover have "Get00Element fv = seqNLL LZERO LogAdd lbls pos_scores pair_scores"
    by (simp add: Get00Element_def v)
  ultimately show "\<exists>pp b fv.
         CRF_EvaluateThisNodeS LZERO LogAdd rcrfBackwardCompute pp0 a0 b0 fv0 lbls pos_scores
             pair_scores
           = Inr (pp, ?a, b, fv, labelAt lbls 0, labelAt lbls (GetNumCols lbls - 1))
         \<and> Get00Element fv
             = - ((InnerProductOfMatrices lbls pos_scores + pathTransitionScore lbls pair_scores)
                  - logAddOver LZERO LogAdd (GetNumRows lbls)
                      (\<lambda>k. Elem ?a k (GetNumCols lbls - 1)))
         \<and> Get00Element fv = seqNLL LZERO LogAdd lbls pos_scores pair_scores"
    using e by blast
next
  assume h: "0 < nS \<and> 0 < GetNumCols (FunctionValues (Inputs n net 0)) div nS
       \<and> (\<forall>i<nS. allLabelled
             (ColumnSlice (FunctionValues (Inputs n net 0))
                (i * (GetNumCols (FunctionValues (Inputs n net 0)) div nS))
                (GetNumCols (FunctionValues (Inputs n net 0)) div nS))
             (FunctionValues (Inputs n net 2)))"
  from CRF_EvaluateThisNode_sum[OF conjunct1[OF h] conjunct1[OF conjunct2[OF h]]
      conjunct2[OF conjunct2[OF h]], of LZERO LogAdd rcrfBackwardCompute]
  obtain n' where e: "CRF_EvaluateThisNode LZERO LogAdd rcrfBackwardCompute nS n net = Inr (n', net)"
    and v: "\<And>a b. Elem (FunctionValues n') a b
             = (\<Sum>i<nS. seqNLL LZERO LogAdd
                   (ColumnSlice (FunctionValues (Inputs n net 0))
                      (i * (GetNumCols (FunctionValues (Inputs n net 0)) div nS))
                      (GetNumCols (FunctionValues (Inputs n net 0)) div nS))
                   (ColumnSlice (FunctionValues (Inputs n net 1))
                      (i * (GetNumCols (FunctionValues (Inputs n net 0)) div nS))
                      (GetNumCols (FunctionValues (Inputs n net 0)) div nS))
                   (FunctionValues (Inputs n net 2)))"
    by blast
  show "\<exists>n'. CRF_EvaluateThisNode LZERO LogAdd rcrfBackwardCompute nS n net = Inr (n', net)
         \<and> Get00Element (FunctionValues n')
             = (\<Sum>i<nS. seqNLL LZERO LogAdd
                   (ColumnSlice (FunctionValues (Inputs n net 0))
                      (i * (GetNumCols (FunctionValues (Inputs n net 0)) div nS))
                      (GetNumCols (FunctionValues (Inputs n net 0)) div nS))
                   (ColumnSlice (FunctionValues (Inputs n net 1))
                      (i * (GetNumCols (FunctionValues (Inputs n net 0)) div nS))
                      (GetNumCols (FunctionValues (Inputs n net 0)) div nS))
                   (FunctionValues (Inputs n net 2)))"
    unfolding Get00Element_def using e v[of 0 0] by (intro exI[of _ n'] conjI)
qed


lemma exCRF_labels:
  "labelAt (ColumnSlice exLbls 0 (Suc 0)) 0 = 1"
  "labelAt (ColumnSlice exLbls (Suc 0) (Suc 0)) 0 = 0"
  by (simp_all add: labelAt_def ColumnSlice_def exLbls_def matrixOfRows_simps upt_0_2)

lemma ColumnSlice_dims:
  "GetNumCols (ColumnSlice m s c) = c"
  "GetNumRows (ColumnSlice m s c) = GetNumRows m"
  by (simp_all add: ColumnSlice_def)

lemma exCRF_allLabelled:
  "allLabelled (ColumnSlice exLbls 0 (Suc 0)) exPair"
  "allLabelled (ColumnSlice exLbls (Suc 0) (Suc 0)) exPair"
  using exCRF_labels
  by (simp_all add: allLabelled_def labelInRange_def ColumnSlice_dims exPair_def
      matrixOfRows_simps)

lemma exCRF_seqNLL:
  "seqNLL (- 1000) max (ColumnSlice exLbls 0 (Suc 0)) (ColumnSlice exPos 0 (Suc 0)) exPair = 40"
  "seqNLL (- 1000) max (ColumnSlice exLbls (Suc 0) (Suc 0)) (ColumnSlice exPos (Suc 0) (Suc 0))
     exPair = 32"
  by (simp_all add: seqNLL_def InnerProductOfMatrices_def pathTransitionScore_def
      logAddOver_def ColumnSlice_def exLbls_def exPos_def exPair_def matrixOfRows_simps
      upt_0_2 sum_lessThan_2)

theorem C3_crf_output_witness:
  "GetNumCols (matrixOfRows 2 1 [[0], [1]]) = 1
   \<and> oneHot (matrixOfRows 2 1 [[0], [1]]) 1 0
   \<and> allLabelled (matrixOfRows 2 1 [[0], [1]]) exPair
   \<and> (\<forall>rcrf pp0 a0 b0 fv0. \<exists>pp a b fv f l.
         CRF_EvaluateThisNodeS (- 1000) max rcrf pp0 a0 b0 fv0 (matrixOfRows 2 1 [[0], [1]])
             (matrixOfRows 2 1 [[1], [3]]) exPair
           = Inr (pp, a, b, fv, f, l)
         \<and> Elem a 0 0 = 21 \<and> Elem a 1 0 = 43 \<and> Get00Element fv = 40)
   \<and> (\<forall>rcrf pp0 a0 b0 fv0. \<exists>pp b fv.
         CRF_EvaluateThisNodeS (- 1000) max rcrf pp0 a0 b0 fv0 (matrixOfRows 2 1 [[0], [1]])
             (matrixOfRows 2 1 [[1], [3]]) exPair
           = Inr (pp, ForwardCompute (- 1000) max a0 (matrixOfRows 2 1 [[0], [1]])
                        (matrixOfRows 2 1 [[1], [3]]) exPair, b, fv, 1, 1)
         \<and> Get00Element fv = 40)
   \<and> (\<forall>rcrf. \<exists>n'. CRF_EvaluateThisNode (- 1000) max rcrf 2 exCRF exNetCRF = Inr (n', exNetCRF)
         \<and> Get00Element (FunctionValues n') = 72)"
proof -
  let ?l = "matrixOfRows 2 1 [[0], [1]]" and ?p = "matrixOfRows 2 1 [[1], [3]]"
  have h1: "GetNumCols ?l = 1" "0 < GetNumCols ?l"
    by (simp_all add: matrixOfRows_simps)
  have h2: "oneHot ?l 1 0"
    by (simp add: oneHot_def matrixOfRows_simps upt_0_2)
  have lab: "labelAt ?l 0 = 1"
    by (simp add: labelAt_def matrixOfRows_simps upt_0_2)
  have h3: "allLabelled ?l exPair"
    using lab by (simp add: allLabelled_def labelInRange_def matrixOfRows_simps exPair_def)
  have nll: "seqNLL (- 1000) max ?l ?p exPair = 40"
    by (simp add: seqNLL_def InnerProductOfMatrices_def pathTransitionScore_def
        logAddOver_def exPair_def matrixOfRows_simps upt_0_2 sum_lessThan_2)
  have 1: "\<exists>pp a b fv f l.
         CRF_EvaluateThisNodeS (- 1000) max rcrf pp0 a0 b0 fv0 ?l ?p exPair
           = Inr (pp, a, b, fv, f, l)
         \<and> Elem a 0 0 = 21 \<and> Elem a 1 0 = 43 \<and> Get00Element fv = 40"
    for rcrf pp0 a0 b0 fv0
  proof -
    note t = C3_crf_output[where lbls = ?l and y = 1 and LZERO = "- 1000" and LogAdd = max
        and rcrfBackwardCompute = rcrf and ?pp0.0 = pp0 and ?a0.0 = a0 and ?b0.0 = b0
        and ?fv0.0 = fv0 and pos_scores = ?p and pair_scores = exPair,
        THEN conjunct1, THEN mp, OF conjI[OF h1(1) h2]]
    then obtain pp a b fv f l where
      e: "CRF_EvaluateThisNodeS (- 1000) max rcrf pp0 a0 b0 fv0 ?l ?p exPair
           = Inr (pp, a, b, fv, f, l)"
      and a: "\<And>k. k < GetNumRows ?l \<Longrightarrow> Elem a k 0
               = Elem ?p k 0
                 + logAddOver (- 1000) max (GetNumRows ?l)
                     (\<lambda>j. (if j = 1 then 0 else - 1000) + Elem exPair k j)"
      and v: "Get00Element fv
             = - Elem ?p 1 0 + logAddOver (- 1000) max (GetNumRows ?l) (\<lambda>k. Elem a k 0)"
      by blast
    have a0: "Elem a 0 0 = 21"
      using a[of 0]
      by (simp add: logAddOver_def exPair_def matrixOfRows_simps upt_0_2)
    have a1: "Elem a 1 0 = 43"
      using a[of 1]
      by (simp add: logAddOver_def exPair_def matrixOfRows_simps upt_0_2)
    have "Get00Element fv = 40"
      using v a0 a1
      by (simp add: logAddOver_def matrixOfRows_simps upt_0_2)
    then show ?thesis
      using e a0 a1 by blast
  qed
  have 2: "\<exists>pp b fv.
         CRF_EvaluateThisNodeS (- 1000) max rcrf pp0 a0 b0 fv0 ?l ?p exPair
           = Inr (pp, ForwardCompute (- 1000) max a0 ?l ?p exPair, b, fv, 1, 1)
         \<and> Get00Element fv = 40"
    for rcrf pp0 a0 b0 fv0
  proof -
    note t = C3_crf_output[where lbls = ?l and LZERO = "- 1000" and LogAdd = max
        and rcrfBackwardCompute = rcrf and ?pp0.0 = pp0 and ?a0.0 = a0 and ?b0.0 = b0
        and ?fv0.0 = fv0 and pos_scores = ?p and pair_scores = exPair,
        THEN conjunct2, THEN conjunct1, THEN mp, OF conjI[OF h1(2) h3]]
    then obtain pp b fv where
      e: "CRF_EvaluateThisNodeS (- 1000) max rcrf pp0 a0 b0 fv0 ?l ?p exPair
           = Inr (pp, ForwardCompute (- 1000) max a0 ?l ?p exPair, b, fv,
                  labelAt ?l 0, labelAt ?l (GetNumCols ?l - 1))"
      and v: "Get00Element fv = seqNLL (- 1000) max ?l ?p exPair"
      by blast
    have "labelAt ?l (GetNumCols ?l - 1) = 1"
      using lab by (simp add: matrixOfRows_simps)
    then show ?thesis
      using e v nll lab by simp
  qed
  have 3: "\<exists>n'. CRF_EvaluateThisNode (- 1000) max rcrf 2 exCRF exNetCRF = Inr (n', exNetCRF)
         \<and> Get00Element (FunctionValues n') = 72" for rcrf
  proof -
    have d: "GetNumCols (FunctionValues (Inputs exCRF exNetCRF 0)) div 2 = Suc 0"
      by (simp add: exNetCRF_inputs exLbls_def matrixOfRows_simps)
    have l: "\<forall>i<2. allLabelled
             (ColumnSlice (FunctionValues (Inputs exCRF exNetCRF 0))
                (i * (GetNumCols (FunctionValues (Inputs exCRF exNetCRF 0)) div 2))
                (GetNumCols (FunctionValues (Inputs exCRF exNetCRF 0)) div 2))
             (FunctionValues (Inputs exCRF exNetCRF 2))"
      unfolding d
    proof (intro allI impI)
      fix i :: nat
      assume "i < 2"
      then consider "i = 0" | "i = Suc 0"
        by arith
      then show "allLabelled
             (ColumnSlice (FunctionValues (Inputs exCRF exNetCRF 0)) (i * Suc 0) (Suc 0))
             (FunctionValues (Inputs exCRF exNetCRF 2))"
        by cases (simp_all add: exNetCRF_inputs exCRF_allLabelled)
    qed
    have p: "(0::nat) < 2 \<and> 0 < GetNumCols (FunctionValues (Inputs exCRF exNetCRF 0)) div 2
       \<and> (\<forall>i<2. allLabelled
             (ColumnSlice (FunctionValues (Inputs exCRF exNetCRF 0))
                (i * (GetNumCols (FunctionValues (Inputs exCRF exNetCRF 0)) div 2))
                (GetNumCols (FunctionValues (Inputs exCRF exNetCRF 0)) div 2))
             (FunctionValues (Inputs exCRF exNetCRF 2)))"
      using l d by simp
    note t = C3_crf_output[where nS = 2 and n = exCRF and net = exNetCRF
        and LZERO = "- 1000" and LogAdd = max and rcrfBackwardCompute = rcrf,
        THEN conjunct2, THEN conjunct2, THEN mp, OF p]
    then obtain n' where
      e: "CRF_EvaluateThisNode (- 1000) max rcrf 2 exCRF exNetCRF = Inr (n', exNetCRF)"
      and v: "Get00Element (FunctionValues n')
             = (\<Sum>i<2. seqNLL (- 1000) max
                   (ColumnSlice (FunctionValues (Inputs exCRF exNetCRF 0))
                      (i * (GetNumCols (FunctionValues (Inputs exCRF exNetCRF 0)) div 2))
                      (GetNumCols (FunctionValues (Inputs exCRF exNetCRF 0)) div 2))
                   (ColumnSlice (FunctionValues (Inputs exCRF exNetCRF 1))
                      (i * (GetNumCols (FunctionValues (Inputs exCRF exNetCRF 0)) div 2))
                      (GetNumCols (FunctionValues (Inputs exCRF exNetCRF 0)) div 2))
                   (FunctionValues (Inputs exCRF exNetCRF 2)))"
      by blast
    have "Get00Element (FunctionValues n') = 72"
      unfolding v d
      by (simp add: sum_lessThan_2 exNetCRF_inputs exCRF_seqNLL)
    then show ?thesis using e by blast
  qed
  show ?thesis
    using h1(1) h2 h3 1 2 3 by blast
qed

text \<open>
  The claim as stated fails. With one label, one column, position score 0 and transition
  score 5, and \<open>logAdd(a, b) = log(exp(a) + exp(b))\<close>, the value of \<open>alpha[0,0]\<close>
  is not the position score, because the recursion adds the transition score from the
  first label also at \<open>t = 0\<close>; and the output is not
  \<open>-posScores[true,0] + logAddOverK(posScores[k,0])\<close>.
\<close>

theorem C3_crf_output_counterexample:
  "GetNumCols (matrixOfRows 1 1 [[1]]) = 1
   \<and> oneHot (matrixOfRows 1 1 [[1]]) 0 0
   \<and> alphaElemOf
         (CRF_EvaluateThisNodeS (- 10000000000) LogAdd_spec exBackward (matrixOfRows 0 0 [])
            (matrixOfRows 0 0 []) (matrixOfRows 0 0 []) (matrixOfRows 1 1 [])
            (matrixOfRows 1 1 [[1]]) (matrixOfRows 1 1 [[0]]) (matrixOfRows 1 1 [[5]])) 0 0
       = Some (LogAdd_spec (- 10000000000) 5)
   \<and> LogAdd_spec (- 10000000000) 5 \<noteq> Elem (matrixOfRows 1 1 [[0]]) 0 0
   \<and> outputOf
         (CRF_EvaluateThisNodeS (- 10000000000) LogAdd_spec exBackward (matrixOfRows 0 0 [])
            (matrixOfRows 0 0 []) (matrixOfRows 0 0 []) (matrixOfRows 1 1 [])
            (matrixOfRows 1 1 [[1]]) (matrixOfRows 1 1 [[0]]) (matrixOfRows 1 1 [[5]]))
       = Some (LogAdd_spec (- 10000000000) (LogAdd_spec (- 10000000000) 5))
   \<and> LogAdd_spec (- 10000000000) (LogAdd_spec (- 10000000000) 5)
       \<noteq> - Elem (matrixOfRows 1 1 [[0]]) 0 0
         + logAddOverK (- 10000000000) LogAdd_spec (matrixOfRows 1 1 [[0]]) 0"
proof -
  let ?l = "matrixOfRows 1 1 [[1]]" and ?p = "matrixOfRows 1 1 [[0]]"
    and ?q = "matrixOfRows 1 1 [[5]]" and ?m = "matrixOfRows 0 0 []"
    and ?f = "matrixOfRows 1 1 []"
  define z :: real where "z = exp (- 10000000000)"
  have z: "0 < z" "z < 1"
    by (simp_all add: z_def)
  have e5: "2 < exp (5::real)"
    using exp_ge_add_one_self[of "5::real"] by simp
  have h1: "GetNumCols ?l = Suc 0" "GetNumCols ?l = 1"
    by (simp_all add: matrixOfRows_simps)
  have h2: "oneHot ?l 0 0"
    by (simp add: oneHot_def matrixOfRows_simps)
  have claimed: "- Elem ?p 0 0 + logAddOverK (- 10000000000) LogAdd_spec ?p 0 = ln (z + 1)"
    by (simp add: logAddOverK_def logAddOver_def LogAdd_spec_def matrixOfRows_simps z_def)
  have c5: "ln (z + 1) < 5"
  proof -
    have "z + 1 < exp 5" using z e5 by simp
    then have "ln (z + 1) < ln (exp (5::real))"
      using z by (subst ln_less_cancel_iff) simp_all
    then show ?thesis by simp
  qed
  have g5: "5 < ln (w + exp 5)" if "0 < w" for w :: real
  proof -
    have "ln (exp (5::real)) < ln (w + exp 5)"
      using that by (subst ln_less_cancel_iff) (simp_all add: add_pos_pos)
    then show ?thesis by simp
  qed
  have l5: "LogAdd_spec (- 10000000000) 5 = ln (z + exp 5)"
    by (simp add: LogAdd_spec_def z_def)
  have l55: "LogAdd_spec (- 10000000000) (LogAdd_spec (- 10000000000) 5) = ln (z + (z + exp 5))"
    using z by (simp add: l5) (simp add: LogAdd_spec_def z_def add_pos_pos)
  from CRF_length_one[OF h1(1) h2, of "- 10000000000" LogAdd_spec exBackward ?m ?m ?m ?f ?p ?q]
  obtain pp a b fv f l where
    e: "CRF_EvaluateThisNodeS (- 10000000000) LogAdd_spec exBackward ?m ?m ?m ?f ?l ?p ?q
           = Inr (pp, a, b, fv, f, l)"
    and a: "\<And>k. k < GetNumRows ?l \<Longrightarrow> Elem a k 0
               = Elem ?p k 0
                 + logAddOver (- 10000000000) LogAdd_spec (GetNumRows ?l)
                     (\<lambda>j. (if j = 0 then 0 else - 10000000000) + Elem ?q k j)"
    and v: "Get00Element fv
             = - Elem ?p 0 0
               + logAddOver (- 10000000000) LogAdd_spec (GetNumRows ?l) (\<lambda>k. Elem a k 0)"
    by blast
  have a0: "Elem a 0 0 = LogAdd_spec (- 10000000000) 5"
    using a[of 0] by (simp add: logAddOver_def matrixOfRows_simps)
  have fv: "Get00Element fv = LogAdd_spec (- 10000000000) (LogAdd_spec (- 10000000000) 5)"
    using v by (simp add: logAddOver_def matrixOfRows_simps a0)
  have 1: "alphaElemOf
         (CRF_EvaluateThisNodeS (- 10000000000) LogAdd_spec exBackward ?m ?m ?m ?f ?l ?p ?q) 0 0
       = Some (LogAdd_spec (- 10000000000) 5)"
    unfolding alphaElemOf_def e by (simp add: a0)
  have 2: "outputOf
         (CRF_EvaluateThisNodeS (- 10000000000) LogAdd_spec exBackward ?m ?m ?m ?f ?l ?p ?q)
       = Some (LogAdd_spec (- 10000000000) (LogAdd_spec (- 10000000000) 5))"
    unfolding outputOf_def e by (simp add: fv)
  have 3: "LogAdd_spec (- 10000000000) 5 \<noteq> Elem ?p 0 0"
    unfolding l5 using g5[OF z(1)] by (simp add: matrixOfRows_simps)
  have "5 < ln (z + (z + exp 5))"
    using g5[of "z + z"] z by (simp add: add.assoc)
  then have 4: "LogAdd_spec (- 10000000000) (LogAdd_spec (- 10000000000) 5)
       \<noteq> - Elem ?p 0 0 + logAddOverK (- 10000000000) LogAdd_spec ?p 0"
    unfolding l55 claimed using c5 by simp
  show ?thesis
    using h1(2) h2 1 2 3 4 by blast
qed


end
